theory Spec2Isabelle
  imports Main "HOL-Library.Word" "HOL-Library.Signed_Division"
begin

unbundle bit_operations_syntax

section \<open>Data model\<close>

text \<open>
  All register values are JavaScript numbers kept in \<open>Uint32Array\<close>s or coerced with
  \<open>>>> 0\<close>; they are modelled as 32-bit words. The bitwise operators of JavaScript work
  on the 32-bit pattern of their operands: \<open>a & b\<close> is \<open>a AND b\<close>, \<open>a | b\<close> is
  \<open>a OR b\<close>, \<open>a ^ b\<close> is \<open>a XOR b\<close>, \<open>~a\<close> is \<open>NOT a\<close>, \<open>a << n\<close> is
  \<open>push_bit n a\<close>, \<open>a >>> n\<close> is \<open>drop_bit n a\<close> and \<open>a >> n\<close> is
  \<open>signed_drop_bit n a\<close>, for shift counts below 32. The counters \<open>cycles\<close>,
  \<open>instructions\<close> and \<open>fault_count\<close> are unbounded.
\<close>

type_synonym u32 = "32 word"

text \<open>
  The breakpoint manager of \<open>cpu_part1.js\<close>. A breakpoint made by \<open>addBreakpoint\<close> has
  no condition and no callback (both \<open>null\<close>); such breakpoints are the ones modelled.
  The hit statistics and \<open>lastBreakpoint\<close> only record history and are left out.
\<close>

record breakpoint =
  enabled :: bool
  hitCount :: nat
  temporary :: bool

record BreakpointManager =
  breakpoints :: "u32 \<Rightarrow> breakpoint option"
  paused :: bool

text \<open>
  The CPU object: the fields set by \<open>reset()\<close> in \<open>cpu_part1.js\<close> and those added by
  \<open>initializeCPU\<close> and \<open>setupBreakpointSystem\<close>. The three register banks are
  \<open>Uint32Array(32)\<close>; every index the executors use is a masked instruction field below
  32. \<open>miu\<close> is the attached memory interface (\<open>None\<close> for \<open>null\<close>), of a type \<open>'m\<close> that
  is a parameter.
\<close>

record 'm CPU =
  miu :: "'m option"
  r :: "nat \<Rightarrow> u32"
  cr :: "nat \<Rightarrow> u32"
  sr :: "nat \<Rightarrow> u32"
  CEL :: u32
  CEH :: u32
  pc :: u32
  N :: u32
  Z :: u32
  C :: u32
  V :: u32
  T :: u32
  cycles :: nat
  instructions :: nat
  halted :: bool
  initialized :: bool
  fault_count :: nat
  last_error :: "string option"
  breakpointManager :: "BreakpointManager option"

text \<open>
  The memory interface class (\<open>SegmentedMemoryRegion\<close>) is not part of the sources at
  hand, so its methods are a parameter. A read or write may change the interface's state
  (memory-mapped registers) and may throw: the result carries the new state and either
  the thrown message (\<open>Inl\<close>) or the value. \<open>miu_size\<close> is the \<open>size\<close> property, \<open>None\<close>
  when it is \<open>undefined\<close>.
\<close>

record 'm miu_methods =
  miu_size :: "'m \<Rightarrow> nat option"
  readU8 :: "'m \<Rightarrow> u32 \<Rightarrow> 'm \<times> (string + u32)"
  readU16 :: "'m \<Rightarrow> u32 \<Rightarrow> 'm \<times> (string + u32)"
  readU32 :: "'m \<Rightarrow> u32 \<Rightarrow> 'm \<times> (string + u32)"
  writeU8 :: "'m \<Rightarrow> u32 \<Rightarrow> u32 \<Rightarrow> 'm \<times> string option"
  writeU16 :: "'m \<Rightarrow> u32 \<Rightarrow> u32 \<Rightarrow> 'm \<times> string option"
  writeU32 :: "'m \<Rightarrow> u32 \<Rightarrow> u32 \<Rightarrow> 'm \<times> string option"

section \<open>Registers, flags and ALU primitives (cpu_part1.js)\<close>

definition reset :: "'m CPU \<Rightarrow> 'm CPU" where
  "reset s = s\<lparr>r := (\<lambda>_. 0), cr := (\<lambda>_. 0), sr := (\<lambda>_. 0), CEL := 0, CEH := 0, pc := 0,
     N := 0, Z := 0, C := 0, V := 0, T := 0, cycles := 0, instructions := 0,
     halted := False\<rparr>"

text \<open>
  The constructor: \<open>this.miu = miu; this.reset()\<close>. The fields that \<open>initializeCPU\<close>
  and \<open>setupBreakpointSystem\<close> add later do not exist yet; \<open>undefined\<close> reads as
  \<open>false\<close>, as 0 in \<open>fault_count || 0\<close>, and as no breakpoint manager.
\<close>

definition new_CPU :: "'m option \<Rightarrow> 'm CPU" where
  "new_CPU m = \<lparr>miu = m, r = (\<lambda>_. 0), cr = (\<lambda>_. 0), sr = (\<lambda>_. 0), CEL = 0, CEH = 0,
     pc = 0, N = 0, Z = 0, C = 0, V = 0, T = 0, cycles = 0, instructions = 0,
     halted = False, initialized = False, fault_count = 0, last_error = None,
     breakpointManager = None\<rparr>"

definition setPC :: "'m CPU \<Rightarrow> u32 \<Rightarrow> 'm CPU" where
  "setPC s addr = s\<lparr>pc := addr\<rparr>"

definition getRegister :: "'m CPU \<Rightarrow> nat \<Rightarrow> u32" where
  "getRegister s idx = (if idx < 32 then r s idx else 0)"

definition setRegister :: "'m CPU \<Rightarrow> nat \<Rightarrow> u32 \<Rightarrow> 'm CPU" where
  "setRegister s idx v = (if idx > 0 \<and> idx < 32 then s\<lparr>r := (r s)(idx := v)\<rparr> else s)"

text \<open>
  \<open>signExtend(x, b)\<close>. JavaScript takes shift counts modulo 32; for \<open>b = 0\<close> the masked
  value is 0, so the bit tested by \<open>1 << (b - 1)\<close> is clear whichever it is.
\<close>

definition signExtend :: "u32 \<Rightarrow> nat \<Rightarrow> u32" where
  "signExtend x b =
     (if b \<ge> 32 then x
      else let x1 = x AND (push_bit b 1 - 1)
           in if x1 AND push_bit (b - 1) 1 \<noteq> 0 then x1 OR push_bit b (- 1) else x1)"

definition updateBasicFlags :: "'m CPU \<Rightarrow> u32 \<Rightarrow> 'm CPU" where
  "updateBasicFlags s res = s\<lparr>N := drop_bit 31 res AND 1, Z := (if res = 0 then 1 else 0)\<rparr>"

definition packSR0 :: "'m CPU \<Rightarrow> 'm CPU" where
  "packSR0 s = s\<lparr>sr := (sr s)(0 :=
       push_bit 31 (N s AND 1) OR push_bit 30 (Z s AND 1) OR
       push_bit 29 (C s AND 1) OR push_bit 28 (V s AND 1) OR (T s AND 1))\<rparr>"

definition unpackSR0 :: "'m CPU \<Rightarrow> 'm CPU" where
  "unpackSR0 s = (let v = sr s 0 in
     s\<lparr>N := drop_bit 31 v AND 1, Z := drop_bit 30 v AND 1, C := drop_bit 29 v AND 1,
       V := drop_bit 28 v AND 1, T := drop_bit 0 v AND 1\<rparr>)"

definition setSystemRegister :: "'m CPU \<Rightarrow> nat \<Rightarrow> u32 \<Rightarrow> 'm CPU" where
  "setSystemRegister s idx v =
     (if idx < 32 then
        (let s1 = s\<lparr>sr := (sr s)(idx := v)\<rparr> in if idx = 0 then unpackSR0 s1 else s1)
      else s)"

text \<open>
  The arithmetic primitives return the new CPU state (the flags) and the result. The carry
  tests are written by the source on unbounded numbers, hence \<open>unat\<close>.
\<close>

definition add :: "'m CPU \<Rightarrow> u32 \<Rightarrow> u32 \<Rightarrow> bool \<Rightarrow> 'm CPU \<times> u32" where
  "add s a b updateFlags =
     (let res = a + b in
      (if updateFlags then
         (updateBasicFlags s res)
           \<lparr>C := (if unat b > 0xFFFFFFFF - unat a then 1 else 0),
            V := drop_bit 31 (NOT (a XOR b) AND (a XOR res)) AND 1\<rparr>
       else s, res))"

definition addc :: "'m CPU \<Rightarrow> u32 \<Rightarrow> u32 \<Rightarrow> bool \<Rightarrow> 'm CPU \<times> u32" where
  "addc s a b updateFlags =
     (let res = a + b + C s in
      (if updateFlags then
         (updateBasicFlags s res)
           \<lparr>C := (if unat b + unat (C s) > 0xFFFFFFFF - unat a then 1 else 0),
            V := drop_bit 31 (NOT (a XOR b) AND (a XOR res)) AND 1\<rparr>
       else s, res))"

definition sub :: "'m CPU \<Rightarrow> u32 \<Rightarrow> u32 \<Rightarrow> bool \<Rightarrow> 'm CPU \<times> u32" where
  "sub s a b updateFlags =
     (let res = a - b in
      (if updateFlags then
         (updateBasicFlags s res)
           \<lparr>C := (if unat a \<ge> unat b then 1 else 0),
            V := drop_bit 31 ((a XOR b) AND NOT (res XOR b)) AND 1\<rparr>
       else s, res))"

definition subc :: "'m CPU \<Rightarrow> u32 \<Rightarrow> u32 \<Rightarrow> bool \<Rightarrow> 'm CPU \<times> u32" where
  "subc s a b updateFlags =
     (let borrow = (if C s = 0 then 1 else 0) :: u32;
          res = a - b - borrow in
      (if updateFlags then
         (updateBasicFlags s res)
           \<lparr>C := (if unat a \<ge> unat b + unat borrow then 1 else 0),
            V := drop_bit 31 ((a XOR b) AND NOT (res XOR b)) AND 1\<rparr>
       else s, res))"

definition neg :: "'m CPU \<Rightarrow> u32 \<Rightarrow> bool \<Rightarrow> 'm CPU \<times> u32" where
  "neg s a updateFlags =
     (let res = 0 - a in
      (if updateFlags then
         (updateBasicFlags s res)
           \<lparr>C := (if a = 0 then 1 else 0), V := (if a = 0x80000000 then 1 else 0)\<rparr>
       else s, res))"

definition bitOp :: "'m CPU \<Rightarrow> u32 \<Rightarrow> u32 \<Rightarrow> string \<Rightarrow> bool \<Rightarrow> 'm CPU \<times> u32" where
  "bitOp s a b type updateFlags =
     (let res = (if type = ''and'' then a AND b
                 else if type = ''or'' then a OR b
                 else if type = ''xor'' then a XOR b
                 else if type = ''not'' then NOT a
                 else 0) in
      (if updateFlags then updateBasicFlags s res else s, res))"

definition sll :: "'m CPU \<Rightarrow> u32 \<Rightarrow> u32 \<Rightarrow> bool \<Rightarrow> 'm CPU \<times> u32" where
  "sll s a sa0 updateFlags =
     (let sa = unat (sa0 AND 0x1F); res = push_bit sa a in
      (if updateFlags then
         (let s1 = updateBasicFlags s res in
          if sa > 0 then s1\<lparr>C := drop_bit (32 - sa) a AND 1\<rparr> else s1)
       else s, res))"

definition srl :: "'m CPU \<Rightarrow> u32 \<Rightarrow> u32 \<Rightarrow> bool \<Rightarrow> 'm CPU \<times> u32" where
  "srl s a sa0 updateFlags =
     (let sa = unat (sa0 AND 0x1F); res = drop_bit sa a in
      (if updateFlags then
         (let s1 = updateBasicFlags s res in
          if sa > 0 then s1\<lparr>C := drop_bit (sa - 1) a AND 1\<rparr> else s1)
       else s, res))"

definition sra :: "'m CPU \<Rightarrow> u32 \<Rightarrow> u32 \<Rightarrow> bool \<Rightarrow> 'm CPU \<times> u32" where
  "sra s a sa0 updateFlags =
     (let sa = unat (sa0 AND 0x1F); res = signed_drop_bit sa a in
      (if updateFlags then
         (let s1 = updateBasicFlags s res in
          if sa > 0 then s1\<lparr>C := drop_bit (sa - 1) a AND 1\<rparr> else s1)
       else s, res))"

definition ror :: "'m CPU \<Rightarrow> u32 \<Rightarrow> u32 \<Rightarrow> bool \<Rightarrow> 'm CPU \<times> u32" where
  "ror s a sa0 updateFlags =
     (let sa = unat (sa0 AND 0x1F) in
      if sa = 0 then (s, a)
      else let res = drop_bit sa a OR push_bit (32 - sa) a in
        (if updateFlags then (updateBasicFlags s res)\<lparr>C := drop_bit (sa - 1) a AND 1\<rparr>
         else s, res))"

definition rol :: "'m CPU \<Rightarrow> u32 \<Rightarrow> u32 \<Rightarrow> bool \<Rightarrow> 'm CPU \<times> u32" where
  "rol s a sa0 updateFlags =
     (let sa = unat (sa0 AND 0x1F) in
      if sa = 0 then (s, a)
      else let res = push_bit sa a OR drop_bit (32 - sa) a in
        (if updateFlags then (updateBasicFlags s res)\<lparr>C := drop_bit (32 - sa) a AND 1\<rparr>
         else s, res))"

definition rorc :: "'m CPU \<Rightarrow> u32 \<Rightarrow> bool \<Rightarrow> 'm CPU \<times> u32" where
  "rorc s a updateFlags =
     (let res = drop_bit 1 a OR push_bit 31 (C s AND 1) in
      (if updateFlags then (updateBasicFlags s res)\<lparr>C := a AND 1\<rparr> else s, res))"

definition rolc :: "'m CPU \<Rightarrow> u32 \<Rightarrow> bool \<Rightarrow> 'm CPU \<times> u32" where
  "rolc s a updateFlags =
     (let res = push_bit 1 a OR (C s AND 1) in
      (if updateFlags then (updateBasicFlags s res)\<lparr>C := drop_bit 31 a AND 1\<rparr> else s, res))"

definition extsb :: "'m CPU \<Rightarrow> u32 \<Rightarrow> bool \<Rightarrow> 'm CPU \<times> u32" where
  "extsb s a updateFlags =
     (let res0 = a AND 0xFF;
          res = (if res0 AND 0x80 \<noteq> 0 then res0 OR 0xFFFFFF00 else res0) in
      (if updateFlags then updateBasicFlags s res else s, res))"

definition extsh :: "'m CPU \<Rightarrow> u32 \<Rightarrow> bool \<Rightarrow> 'm CPU \<times> u32" where
  "extsh s a updateFlags =
     (let res0 = a AND 0xFFFF;
          res = (if res0 AND 0x8000 \<noteq> 0 then res0 OR 0xFFFF0000 else res0) in
      (if updateFlags then updateBasicFlags s res else s, res))"

definition extzb :: "'m CPU \<Rightarrow> u32 \<Rightarrow> bool \<Rightarrow> 'm CPU \<times> u32" where
  "extzb s a updateFlags =
     (let res = a AND 0xFF in (if updateFlags then updateBasicFlags s res else s, res))"

definition extzh :: "'m CPU \<Rightarrow> u32 \<Rightarrow> bool \<Rightarrow> 'm CPU \<times> u32" where
  "extzh s a updateFlags =
     (let res = a AND 0xFFFF in (if updateFlags then updateBasicFlags s res else s, res))"

definition bitclr :: "'m CPU \<Rightarrow> u32 \<Rightarrow> u32 \<Rightarrow> bool \<Rightarrow> 'm CPU \<times> u32" where
  "bitclr s a bitIdx updateFlags =
     (let res = a AND NOT (push_bit (unat (bitIdx AND 0x1F)) 1) in
      (if updateFlags then updateBasicFlags s res else s, res))"

definition bitset :: "'m CPU \<Rightarrow> u32 \<Rightarrow> u32 \<Rightarrow> bool \<Rightarrow> 'm CPU \<times> u32" where
  "bitset s a bitIdx updateFlags =
     (let res = a OR push_bit (unat (bitIdx AND 0x1F)) 1 in
      (if updateFlags then updateBasicFlags s res else s, res))"

definition bittst :: "'m CPU \<Rightarrow> u32 \<Rightarrow> u32 \<Rightarrow> 'm CPU" where
  "bittst s a bitIdx =
     (let t = (if a AND push_bit (unat (bitIdx AND 0x1F)) 1 \<noteq> 0 then 1 else 0) :: u32 in
      s\<lparr>T := t, Z := (if t \<noteq> 0 then 0 else 1)\<rparr>)"

definition bittgl :: "'m CPU \<Rightarrow> u32 \<Rightarrow> u32 \<Rightarrow> bool \<Rightarrow> 'm CPU \<times> u32" where
  "bittgl s a bitIdx updateFlags =
     (let res = a XOR push_bit (unat (bitIdx AND 0x1F)) 1 in
      (if updateFlags then updateBasicFlags s res else s, res))"

definition conditional :: "'m CPU \<Rightarrow> u32 \<Rightarrow> bool" where
  "conditional s cond0 =
     (let cond = cond0 AND 0x0F in
      if cond = 0x00 then C s = 1
      else if cond = 0x01 then C s = 0
      else if cond = 0x02 then C s = 1 \<and> Z s = 0
      else if cond = 0x03 then C s = 0 \<or> Z s = 1
      else if cond = 0x04 then Z s = 1
      else if cond = 0x05 then Z s = 0
      else if cond = 0x06 then N s = V s \<and> Z s = 0
      else if cond = 0x07 then N s \<noteq> V s \<or> Z s = 1
      else if cond = 0x08 then N s = V s
      else if cond = 0x09 then N s \<noteq> V s
      else if cond = 0x0A then N s = 1
      else if cond = 0x0B then N s = 0
      else if cond = 0x0C then V s = 1
      else if cond = 0x0D then V s = 0
      else if cond = 0x0E then T s = 1
      else if cond = 0x0F then True
      else False)"

text \<open>
  Multiplication goes through \<open>BigInt\<close>: the exact product, its low word in \<open>CEL\<close> and the
  next 32 bits (\<open>>> 32n\<close> is the floor) in \<open>CEH\<close>. Division is done on doubles and then
  truncated (\<open>Math.trunc\<close>, \<open>Math.floor\<close>); the operands are 32-bit integers, for which
  the rounded quotient truncates to the integer quotient. \<open>%\<close> takes the sign of the
  dividend.
\<close>

definition execMul :: "'m CPU \<Rightarrow> u32 \<Rightarrow> u32 \<Rightarrow> 'm CPU" where
  "execMul s a b = (let res = sint a * sint b in
     s\<lparr>CEL := word_of_int res, CEH := word_of_int (res div 2 ^ 32)\<rparr>)"

definition execMulu :: "'m CPU \<Rightarrow> u32 \<Rightarrow> u32 \<Rightarrow> 'm CPU" where
  "execMulu s a b = (let res = uint a * uint b in
     s\<lparr>CEL := word_of_int res, CEH := word_of_int (res div 2 ^ 32)\<rparr>)"

definition execDiv :: "'m CPU \<Rightarrow> u32 \<Rightarrow> u32 \<Rightarrow> 'm CPU" where
  "execDiv s a b = (let sA = sint a; sB = sint b in
     if sB \<noteq> 0 then s\<lparr>CEL := word_of_int (sA sdiv sB), CEH := word_of_int (sA smod sB)\<rparr>
     else s)"

definition execDivu :: "'m CPU \<Rightarrow> u32 \<Rightarrow> u32 \<Rightarrow> 'm CPU" where
  "execDivu s a b = (let uA = unat a; uB = unat b in
     if uB \<noteq> 0 then s\<lparr>CEL := of_nat (uA div uB), CEH := of_nat (uA mod uB)\<rparr>
     else s)"

definition moveFromCE :: "'m CPU \<Rightarrow> nat \<Rightarrow> u32 \<Rightarrow> 'm CPU" where
  "moveFromCE s rD rB0 =
     (let rB = rB0 AND 0x03 in
      if rB = 1 then setRegister s rD (CEL s)
      else if rB = 2 then setRegister s rD (CEH s)
      else if rB = 3 then
        (let s1 = setRegister s rD (CEL s) in
         if rD < 31 then setRegister s1 (rD + 1) (CEH s1) else s1)
      else s)"

definition moveToCE :: "'m CPU \<Rightarrow> nat \<Rightarrow> u32 \<Rightarrow> 'm CPU" where
  "moveToCE s rD rB0 =
     (let rB = rB0 AND 0x03 in
      if rB = 1 then s\<lparr>CEL := r s rD\<rparr>
      else if rB = 2 then s\<lparr>CEH := r s rD\<rparr>
      else if rB = 3 then
        (let s1 = s\<lparr>CEL := r s rD\<rparr> in
         if rD < 31 then s1\<lparr>CEH := r s1 (rD + 1)\<rparr> else s1)
      else s)"

section \<open>Exception entry and return (CPU part 2)\<close>

text \<open>
  \<open>cause\<close> is a non-negative integer; \<open>(cr[3] + cause * 4) >>> 0\<close> is the sum taken
  modulo \<open>2^32\<close>.
\<close>

definition exception :: "'m CPU \<Rightarrow> nat \<Rightarrow> 'm CPU" where
  "exception s cause =
     (let s1 = packSR0 s;
          s2 = s1\<lparr>cr := (cr s1)(1 := sr s1 0)\<rparr>;
          s3 = s2\<lparr>cr := (cr s2)(2 := (cr s2 2 AND NOT 0x00FC0000) OR
                                      push_bit 18 (of_nat cause AND 0x3F))\<rparr>;
          s4 = s3\<lparr>cr := (cr s3)(5 := pc s3)\<rparr>;
          s5 = s4\<lparr>cr := (cr s4)(0 := cr s4 0 AND NOT 1)\<rparr>
      in s5\<lparr>pc := of_nat (unat (cr s5 3) + cause * 4)\<rparr>)"

definition rte :: "'m CPU \<Rightarrow> 'm CPU" where
  "rte s = (let s1 = s\<lparr>sr := (sr s)(0 := cr s 1)\<rparr>; s2 = unpackSR0 s1 in s2\<lparr>pc := cr s2 5\<rparr>)"

section \<open>Instruction executors (CPU part 2)\<close>

text \<open>
  An executor returns the new CPU state together with either the message of a host
  exception thrown inside it (\<open>Inl\<close>) or the byte-length delta it returns (\<open>Inr\<close>).
  State changes made before a throw stay, as they do in the source. Only calls into the
  memory interface can throw. \<open>miu_read\<close> and \<open>miu_write\<close> perform one call on the
  attached interface and continue with the rest of the executor; a method call on a
  \<open>null\<close> interface is a \<open>TypeError\<close>.
\<close>

definition miu_read ::
  "('m \<Rightarrow> u32 \<Rightarrow> 'm \<times> (string + u32)) \<Rightarrow> u32 \<Rightarrow> 'm CPU \<Rightarrow>
   (u32 \<Rightarrow> 'm CPU \<Rightarrow> 'm CPU \<times> (string + 'a)) \<Rightarrow> 'm CPU \<times> (string + 'a)" where
  "miu_read rd addr s k =
     (case miu s of
        None \<Rightarrow> (s, Inl ''TypeError'')
      | Some m \<Rightarrow>
          (case rd m addr of
             (m1, Inl e) \<Rightarrow> (s\<lparr>miu := Some m1\<rparr>, Inl e)
           | (m1, Inr v) \<Rightarrow> k v (s\<lparr>miu := Some m1\<rparr>)))"

definition miu_write ::
  "('m \<Rightarrow> u32 \<Rightarrow> u32 \<Rightarrow> 'm \<times> string option) \<Rightarrow> u32 \<Rightarrow> u32 \<Rightarrow> 'm CPU \<Rightarrow>
   ('m CPU \<Rightarrow> 'm CPU \<times> (string + 'a)) \<Rightarrow> 'm CPU \<times> (string + 'a)" where
  "miu_write wr addr v s k =
     (case miu s of
        None \<Rightarrow> (s, Inl ''TypeError'')
      | Some m \<Rightarrow>
          (case wr m addr v of
             (m1, Some e) \<Rightarrow> (s\<lparr>miu := Some m1\<rparr>, Inl e)
           | (m1, None) \<Rightarrow> k (s\<lparr>miu := Some m1\<rparr>)))"

text \<open>\<open>this.setRegister(rD, op(...))\<close> for a primitive that returns state and result.\<close>

definition setResult :: "nat \<Rightarrow> 'm CPU \<times> u32 \<Rightarrow> 'm CPU" where
  "setResult rD p = setRegister (fst p) rD (snd p)"

definition execSpForm :: "'m miu_methods \<Rightarrow> 'm CPU \<Rightarrow> u32 \<Rightarrow> 'm CPU \<times> (string + nat)" where
  "execSpForm mi s insn =
     (let rD = unat (drop_bit 22 insn AND 0x1F);
          rA = unat (drop_bit 17 insn AND 0x1F);
          rBw = drop_bit 12 insn AND 0x1F;
          rB = unat rBw;
          func6 = drop_bit 1 insn AND 0x3F;
          CU = insn AND 1
      in
      if func6 = 0x00 then (s, Inr 4)
      else if func6 = 0x01 then (exception s 0x01, Inr 4)
      else if func6 = 0x02 then
        ((if conditional s rBw then exception s 0x02 else s), Inr 4)
      else if func6 = 0x03 then (exception s 0x03, Inr 4)
      else if func6 = 0x04 then
        (if conditional s rBw then
           (let s1 = (if CU \<noteq> 0 then setRegister s 3 (pc s + 4) else s)
            in (s1\<lparr>pc := r s1 rA\<rparr>, Inr 0))
         else (s, Inr 4))
      else if func6 = 0x05 then (s, Inr 4)
      else if func6 = 0x06 then
        (if miu s \<noteq> None then
           miu_read (readU32 mi) (r s rA) s (\<lambda>v s1. (setRegister s1 rD v, Inr 4))
         else (s, Inr 4))
      else if func6 = 0x07 then
        (if miu s \<noteq> None then
           miu_write (writeU32 mi) (r s rA) (r s rD) s (\<lambda>s1. (s1, Inr 4))
         else (s, Inr 4))
      else if func6 = 0x08 then (setResult rD (add s (r s rA) (r s rB) (CU = 1)), Inr 4)
      else if func6 = 0x09 then (setResult rD (addc s (r s rA) (r s rB) (CU = 1)), Inr 4)
      else if func6 = 0x0A then (setResult rD (sub s (r s rA) (r s rB) (CU = 1)), Inr 4)
      else if func6 = 0x0B then (setResult rD (subc s (r s rA) (r s rB) (CU = 1)), Inr 4)
      else if func6 = 0x0C then (fst (sub s (r s rA) (r s rB) True), Inr 4)
      else if func6 = 0x0D then (fst (sub s (r s rA) 0 True), Inr 4)
      else if func6 = 0x0F then (setResult rD (neg s (r s rA) (CU = 1)), Inr 4)
      else if func6 = 0x10 then
        (setResult rD (bitOp s (r s rA) (r s rB) ''and'' (CU = 1)), Inr 4)
      else if func6 = 0x11 then
        (setResult rD (bitOp s (r s rA) (r s rB) ''or'' (CU = 1)), Inr 4)
      else if func6 = 0x12 then
        (setResult rD (bitOp s (r s rA) 0 ''not'' (CU = 1)), Inr 4)
      else if func6 = 0x13 then
        (setResult rD (bitOp s (r s rA) (r s rB) ''xor'' (CU = 1)), Inr 4)
      else if func6 = 0x14 then (setResult rD (bitclr s (r s rA) rBw (CU = 1)), Inr 4)
      else if func6 = 0x15 then (setResult rD (bitset s (r s rA) rBw (CU = 1)), Inr 4)
      else if func6 = 0x16 then (bittst s (r s rA) rBw, Inr 4)
      else if func6 = 0x17 then (setResult rD (bittgl s (r s rA) rBw (CU = 1)), Inr 4)
      else if func6 = 0x18 then (setResult rD (sll s (r s rA) (r s rB) (CU = 1)), Inr 4)
      else if func6 = 0x1A then (setResult rD (srl s (r s rA) (r s rB) (CU = 1)), Inr 4)
      else if func6 = 0x1B then (setResult rD (sra s (r s rA) (r s rB) (CU = 1)), Inr 4)
      else if func6 = 0x1C then (setResult rD (ror s (r s rA) (r s rB) (CU = 1)), Inr 4)
      else if func6 = 0x1D then (setResult rD (rorc s (r s rA) (CU = 1)), Inr 4)
      else if func6 = 0x1E then (setResult rD (rol s (r s rA) (r s rB) (CU = 1)), Inr 4)
      else if func6 = 0x1F then (setResult rD (rolc s (r s rA) (CU = 1)), Inr 4)
      else if func6 = 0x20 then (execMul s (r s rA) (r s rB), Inr 4)
      else if func6 = 0x21 then (execMulu s (r s rA) (r s rB), Inr 4)
      else if func6 = 0x22 then (execDiv s (r s rA) (r s rB), Inr 4)
      else if func6 = 0x23 then (execDivu s (r s rA) (r s rB), Inr 4)
      else if func6 = 0x24 then (moveFromCE s rD rBw, Inr 4)
      else if func6 = 0x25 then (moveToCE s rD rBw, Inr 4)
      else if func6 = 0x28 then (setRegister s rD (sr s rB), Inr 4)
      else if func6 = 0x29 then
        (let s1 = s\<lparr>sr := (sr s)(rB := r s rA)\<rparr>
         in ((if rB = 0 then unpackSR0 s1 else s1), Inr 4))
      else if func6 = 0x2A then (s\<lparr>T := (if conditional s rBw then 1 else 0)\<rparr>, Inr 4)
      else if func6 = 0x2B then
        ((if conditional s rBw then setRegister s rD (r s rA) else s), Inr 4)
      else if func6 = 0x2C then (setResult rD (extsb s (r s rA) (CU = 1)), Inr 4)
      else if func6 = 0x2D then (setResult rD (extsh s (r s rA) (CU = 1)), Inr 4)
      else if func6 = 0x2E then (setResult rD (extzb s (r s rA) (CU = 1)), Inr 4)
      else if func6 = 0x2F then (setResult rD (extzh s (r s rA) (CU = 1)), Inr 4)
      else if func6 = 0x30 then
        (if miu s \<noteq> None then
           miu_read (readU8 mi) (r s rA) s (\<lambda>v s1. (setRegister s1 rD v, Inr 4))
         else (s, Inr 4))
      else if func6 = 0x31 then
        (if miu s \<noteq> None then
           miu_read (readU32 mi) (r s rA) s (\<lambda>v s1. (setRegister s1 rD v, Inr 4))
         else (s, Inr 4))
      else if func6 = 0x34 then
        (if miu s \<noteq> None then
           miu_write (writeU8 mi) (r s rA) (r s rD AND 0xFF) s (\<lambda>s1. (s1, Inr 4))
         else (s, Inr 4))
      else if func6 = 0x35 then
        (if miu s \<noteq> None then
           miu_write (writeU32 mi) (r s rA) (r s rD) s (\<lambda>s1. (s1, Inr 4))
         else (s, Inr 4))
      else if func6 = 0x38 then (setResult rD (sll s (r s rA) rBw (CU = 1)), Inr 4)
      else if func6 = 0x3A then (setResult rD (srl s (r s rA) rBw (CU = 1)), Inr 4)
      else if func6 = 0x3B then (setResult rD (sra s (r s rA) rBw (CU = 1)), Inr 4)
      else if func6 = 0x3C then (setResult rD (ror s (r s rA) rBw (CU = 1)), Inr 4)
      else if func6 = 0x3D then (setResult rD (rorc s (r s rA) True), Inr 4)
      else if func6 = 0x3E then (setResult rD (rol s (r s rA) rBw (CU = 1)), Inr 4)
      else if func6 = 0x3F then (rte s, Inr 0)
      else (s, Inr 4))"

definition execIForm :: "'m CPU \<Rightarrow> u32 \<Rightarrow> 'm CPU \<times> nat" where
  "execIForm s insn =
     (let OP = drop_bit 27 insn AND 0x1F;
          rD = unat (drop_bit 22 insn AND 0x1F);
          func3 = drop_bit 19 insn AND 0x07;
          imm16 = signExtend (drop_bit 1 insn AND 0xFFFF) 16
      in
      if OP = 0x01 then
        (if func3 = 0x00 then (setResult rD (add s (r s rD) imm16 False), 4)
         else if func3 = 0x02 then (fst (sub s (r s rD) imm16 True), 4)
         else if func3 = 0x04 then (setResult rD (bitOp s (r s rD) imm16 ''and'' False), 4)
         else if func3 = 0x05 then (setResult rD (bitOp s (r s rD) imm16 ''or'' False), 4)
         else if func3 = 0x06 then (setRegister s rD imm16, 4)
         else (s, 4))
      else if OP = 0x05 then
        (if func3 = 0x00 then (setResult rD (add s (r s rD) (push_bit 16 imm16) False), 4)
         else if func3 = 0x02 then (fst (sub s (r s rD) (push_bit 16 imm16) True), 4)
         else if func3 = 0x04 then
           (setResult rD (bitOp s (r s rD) (push_bit 16 imm16) ''and'' False), 4)
         else if func3 = 0x05 then
           (setResult rD (bitOp s (r s rD) (push_bit 16 imm16) ''or'' False), 4)
         else if func3 = 0x06 then (setRegister s rD (push_bit 16 imm16), 4)
         else (s, 4))
      else (s, 4))"

definition execJForm :: "'m CPU \<Rightarrow> u32 \<Rightarrow> 'm CPU \<times> nat" where
  "execJForm s insn =
     (let LK = insn AND 1;
          disp24 = drop_bit 1 insn AND 0xFFFFFF;
          signed_disp = signExtend disp24 24;
          target = pc s + push_bit 1 signed_disp;
          s1 = (if LK \<noteq> 0 then setRegister s 3 (pc s + 4) else s)
      in (s1\<lparr>pc := target\<rparr>, 0))"

definition execBForm :: "'m CPU \<Rightarrow> u32 \<Rightarrow> 'm CPU \<times> nat" where
  "execBForm s insn =
     (let LK = insn AND 1;
          BC = drop_bit 23 insn AND 0x0F;
          disp_high = drop_bit 9 insn AND 0x3FFF;
          disp_low = drop_bit 1 insn AND 0xFF;
          disp22 = push_bit 8 disp_high OR disp_low;
          signed_disp = signExtend disp22 22;
          target = pc s + push_bit 1 signed_disp
      in
      if conditional s BC then
        (let s1 = (if LK \<noteq> 0 then setRegister s 3 (pc s + 4) else s)
         in (s1\<lparr>pc := target\<rparr>, 0))
      else (s, 4))"

text \<open>
  The post-increment of the RIX form (\<open>OP === 0x03\<close>) stores into \<open>this.r[rA]\<close>
  directly, not through \<open>setRegister\<close>.
\<close>

definition execRixForm :: "'m miu_methods \<Rightarrow> 'm CPU \<Rightarrow> u32 \<Rightarrow> 'm CPU \<times> (string + nat)" where
  "execRixForm mi s insn =
     (let OP = drop_bit 27 insn AND 0x1F;
          rD = unat (drop_bit 22 insn AND 0x1F);
          rA = unat (drop_bit 17 insn AND 0x1F);
          imm12 = signExtend (drop_bit 5 insn AND 0xFFF) 12;
          func3 = drop_bit 2 insn AND 0x07;
          addr = r s rA + imm12;
          post = (\<lambda>s1. ((if OP = 0x03 then s1\<lparr>r := (r s1)(rA := addr)\<rparr> else s1), Inr 4))
      in
      if miu s = None then (s, Inr 4)
      else if func3 = 0x00 then
        miu_read (readU32 mi) addr s (\<lambda>v s1. post (setRegister s1 rD v))
      else if func3 = 0x01 then
        miu_read (readU16 mi) addr s (\<lambda>v s1. post (setRegister s1 rD (signExtend v 16)))
      else if func3 = 0x02 then
        miu_read (readU16 mi) addr s (\<lambda>v s1. post (setRegister s1 rD v))
      else if func3 = 0x03 then
        miu_read (readU8 mi) addr s (\<lambda>v s1. post (setRegister s1 rD (signExtend v 8)))
      else if func3 = 0x04 then miu_write (writeU32 mi) addr (r s rD) s post
      else if func3 = 0x05 then miu_write (writeU16 mi) addr (r s rD) s post
      else if func3 = 0x06 then
        miu_read (readU8 mi) addr s (\<lambda>v s1. post (setRegister s1 rD v))
      else miu_write (writeU8 mi) addr (r s rD) s post)"

definition execMemoryForm :: "'m miu_methods \<Rightarrow> 'm CPU \<Rightarrow> u32 \<Rightarrow> 'm CPU \<times> (string + nat)" where
  "execMemoryForm mi s insn =
     (let OP = drop_bit 27 insn AND 0x1F;
          rD = unat (drop_bit 22 insn AND 0x1F);
          rA = unat (drop_bit 17 insn AND 0x1F);
          imm15 = signExtend (drop_bit 2 insn AND 0x7FFF) 15;
          addr = r s rA + imm15
      in
      if miu s = None then (s, Inr 4)
      else if OP = 0x10 then
        miu_read (readU32 mi) addr s (\<lambda>v s1. (setRegister s1 rD v, Inr 4))
      else if OP = 0x11 then
        miu_read (readU16 mi) addr s (\<lambda>v s1. (setRegister s1 rD (signExtend v 16), Inr 4))
      else if OP = 0x12 then
        miu_read (readU16 mi) addr s (\<lambda>v s1. (setRegister s1 rD v, Inr 4))
      else if OP = 0x13 then
        miu_read (readU8 mi) addr s (\<lambda>v s1. (setRegister s1 rD (signExtend v 8), Inr 4))
      else if OP = 0x14 then miu_write (writeU32 mi) addr (r s rD) s (\<lambda>s1. (s1, Inr 4))
      else if OP = 0x15 then miu_write (writeU16 mi) addr (r s rD) s (\<lambda>s1. (s1, Inr 4))
      else if OP = 0x16 then
        miu_read (readU8 mi) addr s (\<lambda>v s1. (setRegister s1 rD v, Inr 4))
      else if OP = 0x17 then miu_write (writeU8 mi) addr (r s rD) s (\<lambda>s1. (s1, Inr 4))
      else (s, Inr 4))"

section \<open>16-bit compressed instructions (cpu_part3.js)\<close>

text \<open>
  \<open>c.push\<close> and \<open>c.pop\<close> update \<open>this.r[stackReg]\<close> directly, not through
  \<open>setRegister\<close>.
\<close>

definition exec16 :: "'m miu_methods \<Rightarrow> 'm CPU \<Rightarrow> u32 \<Rightarrow> 'm CPU \<times> (string + nat)" where
  "exec16 mi s insn =
     (let OP = drop_bit 13 insn AND 0x07;
          rD = unat (drop_bit 1 insn AND 0x0F);
          rA = unat (drop_bit 5 insn AND 0x0F)
      in
      if OP = 0x00 then
        (let func4 = drop_bit 9 insn AND 0x0F in
         if func4 = 0x00 then (setRegister s (rD + 16) (r s (rA + 16)), Inr 2)
         else if func4 = 0x01 then (setRegister s rD (r s rA), Inr 2)
         else if func4 = 0x03 then (setRegister s rD (r s rA), Inr 2)
         else if func4 = 0x04 then (s\<lparr>pc := r s rA\<rparr>, Inr 0)
         else if func4 = 0x05 then
           (let s1 = setRegister s 3 (pc s + 2) in (s1\<lparr>pc := r s1 rA\<rparr>, Inr 0))
         else if func4 = 0x06 then
           (let imm11_jmp = drop_bit 5 insn AND 0x7FF;
                target_jmp = pc s + push_bit 1 (signExtend imm11_jmp 11)
            in (s\<lparr>pc := target_jmp\<rparr>, Inr 0))
         else if func4 = 0x07 then
           (let imm11_jal = drop_bit 5 insn AND 0x7FF;
                target_jal = pc s + push_bit 1 (signExtend imm11_jal 11);
                s1 = setRegister s 3 (pc s + 2)
            in (s1\<lparr>pc := target_jal\<rparr>, Inr 0))
         else if func4 = 0x0A then (s, Inr 2)
         else if func4 = 0x0B then (exception s 0x09, Inr 2)
         else (s, Inr 2))
      else if OP = 0x02 then
        (let func4 = drop_bit 9 insn AND 0x0F;
             H = drop_bit 5 insn AND 1;
             targetReg = rD + (if H \<noteq> 0 then 16 else 0);
             stackReg = unat (drop_bit 6 insn AND 0x07);
             imm5 = drop_bit 5 insn AND 0x1F
         in
         if func4 = 0x00 then (setResult rD (add s (r s rD) (r s rA) True), Inr 2)
         else if func4 = 0x01 then (setResult rD (add s (r s rD) imm5 True), Inr 2)
         else if func4 = 0x02 then (setResult rD (sub s (r s rD) imm5 True), Inr 2)
         else if func4 = 0x03 then (setRegister s rD imm5, Inr 2)
         else if func4 = 0x04 then (setRegister s rD (push_bit 11 imm5), Inr 2)
         else if func4 = 0x05 then
           (setResult rD (bitOp s (r s rD) (r s rA) ''and'' True), Inr 2)
         else if func4 = 0x06 then
           (setResult rD (bitOp s (r s rD) (r s rA) ''or'' True), Inr 2)
         else if func4 = 0x07 then
           (setResult rD (bitOp s (r s rD) (r s rA) ''xor'' True), Inr 2)
         else if func4 = 0x08 then (setResult rD (bitOp s (r s rD) 0 ''not'' True), Inr 2)
         else if func4 = 0x09 then (setResult rD (neg s (r s rD) True), Inr 2)
         else if func4 = 0x0A then
           (if miu s \<noteq> None then
              miu_read (readU32 mi) (r s stackReg + push_bit 2 imm5) s
                (\<lambda>v s1. (setRegister s1 targetReg v, Inr 2))
            else (s, Inr 2))
         else if func4 = 0x0B then
           (if miu s \<noteq> None then
              miu_write (writeU32 mi) (r s stackReg + push_bit 2 imm5) (r s targetReg) s
                (\<lambda>s1. (s1, Inr 2))
            else (s, Inr 2))
         else if func4 = 0x0C then (setResult rD (sub s (r s rD) (r s rA) True), Inr 2)
         else if func4 = 0x0E then
           (let s1 = s\<lparr>r := (r s)(stackReg := r s stackReg - 4)\<rparr> in
            if miu s1 \<noteq> None then
              miu_write (writeU32 mi) (r s1 stackReg) (r s1 targetReg) s1 (\<lambda>s2. (s2, Inr 2))
            else (s1, Inr 2))
         else if func4 = 0x0F then
           (let bump = (\<lambda>s1. (s1\<lparr>r := (r s1)(stackReg := r s1 stackReg + 4)\<rparr>, Inr 2)) in
            if miu s \<noteq> None then
              miu_read (readU32 mi) (r s stackReg) s (\<lambda>v s1. bump (setRegister s1 targetReg v))
            else bump s)
         else (s, Inr 2))
      else if OP = 0x03 then
        (let imm5 = drop_bit 4 insn AND 0x1F;
             addr = r s rA + push_bit 2 imm5
         in
         if drop_bit 12 insn AND 1 \<noteq> 0 then
           (if miu s \<noteq> None then
              miu_write (writeU32 mi) addr (r s rD) s (\<lambda>s1. (s1, Inr 2))
            else (s, Inr 2))
         else
           (if miu s \<noteq> None then
              miu_read (readU32 mi) addr s (\<lambda>v s1. (setRegister s1 rD v, Inr 2))
            else (s, Inr 2)))
      else if OP = 0x04 then
        (let cond = drop_bit 10 insn AND 0x0F;
             imm8 = signExtend (drop_bit 1 insn AND 0xFF) 8;
             target = pc s + push_bit 1 imm8
         in if conditional s cond then (s\<lparr>pc := target\<rparr>, Inr 0) else (s, Inr 2))
      else if OP = 0x05 then
        (let func3 = drop_bit 10 insn AND 0x07;
             imm5 = drop_bit 5 insn AND 0x1F
         in
         if func3 = 0x00 then (setResult rD (sll s (r s rD) imm5 True), Inr 2)
         else if func3 = 0x02 then (setResult rD (srl s (r s rD) imm5 True), Inr 2)
         else if func3 = 0x03 then (setResult rD (sra s (r s rD) imm5 True), Inr 2)
         else if func3 = 0x04 then (setResult rD (rol s (r s rD) imm5 True), Inr 2)
         else if func3 = 0x05 then (setResult rD (ror s (r s rD) imm5 True), Inr 2)
         else (s, Inr 2))
      else if OP = 0x06 then
        (let func3 = drop_bit 10 insn AND 0x07 in
         if func3 = 0x00 then (setResult rD (extsb s (r s rD) True), Inr 2)
         else if func3 = 0x01 then (setResult rD (extsh s (r s rD) True), Inr 2)
         else if func3 = 0x02 then (setResult rD (extzb s (r s rD) True), Inr 2)
         else if func3 = 0x03 then (setResult rD (extzh s (r s rD) True), Inr 2)
         else (s, Inr 2))
      else if OP = 0x07 then
        (let imm5 = drop_bit 5 insn AND 0x1F;
             addr = r s 2 + push_bit 2 imm5
         in
         if drop_bit 10 insn AND 1 \<noteq> 0 then
           (if miu s \<noteq> None then
              miu_write (writeU32 mi) addr (r s rD) s (\<lambda>s1. (s1, Inr 2))
            else (s, Inr 2))
         else
           (if miu s \<noteq> None then
              miu_read (readU32 mi) addr s (\<lambda>v s1. (setRegister s1 rD v, Inr 2))
            else (s, Inr 2)))
      else (s, Inr 2))"

section \<open>The execution cycle (CPU part 2)\<close>

definition initializeCPU :: "'m CPU \<Rightarrow> 'm option \<Rightarrow> 'm CPU \<times> bool" where
  "initializeCPU s m =
     (case m of
        None \<Rightarrow> (s, False)
      | Some mm \<Rightarrow>
          (s\<lparr>miu := Some mm, initialized := True, halted := False, fault_count := 0,
             last_error := None\<rparr>, True))"

definition checkBreakpoint :: "BreakpointManager \<Rightarrow> u32 \<Rightarrow> BreakpointManager \<times> bool" where
  "checkBreakpoint bm addr =
     (case breakpoints bm addr of
        None \<Rightarrow> (bm, False)
      | Some bp \<Rightarrow>
          if \<not> enabled bp then (bm, False)
          else
            (let bp1 = bp\<lparr>hitCount := hitCount bp + 1\<rparr>;
                 m1 = (breakpoints bm)(addr := Some bp1);
                 m2 = (if temporary bp1 then m1(addr := None) else m1)
             in (bm\<lparr>breakpoints := m2\<rparr>, True)))"

text \<open>The message stored by the guard for a detached interface (UTF-8 bytes).\<close>

definition miu_error_message :: string where
  "miu_error_message =
     ''MIU desconectado ou n'' @ [CHR 0xC3, CHR 0xA3] @ ''o inicializado''"

text \<open>The \<open>switch(OP)\<close> of the original \<open>step()\<close>: opcode 0x06 has no case and takes the default.\<close>

definition step_dispatch :: "'m miu_methods \<Rightarrow> 'm CPU \<Rightarrow> u32 \<Rightarrow> 'm CPU \<times> (string + nat)" where
  "step_dispatch mi s encoded =
     (let OP = drop_bit 27 encoded AND 0x1F in
      if OP = 0x00 then execSpForm mi s encoded
      else if OP = 0x01 \<or> OP = 0x05 then map_prod id Inr (execIForm s encoded)
      else if OP = 0x02 then map_prod id Inr (execJForm s encoded)
      else if OP = 0x03 \<or> OP = 0x07 then execRixForm mi s encoded
      else if OP = 0x04 then map_prod id Inr (execBForm s encoded)
      else if OP = 0x10 \<or> OP = 0x11 \<or> OP = 0x12 \<or> OP = 0x13 \<or>
              OP = 0x14 \<or> OP = 0x15 \<or> OP = 0x16 \<or> OP = 0x17 then
        execMemoryForm mi s encoded
      else if OP = 0x08 \<or> OP = 0x09 \<or> OP = 0x0A \<or> OP = 0x0B \<or>
              OP = 0x0C \<or> OP = 0x0D \<or> OP = 0x0E \<or> OP = 0x0F \<or>
              OP = 0x18 \<or> OP = 0x19 \<or> OP = 0x1A \<or> OP = 0x1B \<or>
              OP = 0x1C \<or> OP = 0x1D \<or> OP = 0x1E \<or> OP = 0x1F then
        exec16 mi s (encoded AND 0xFFFF)
      else (s, Inr 4))"

text \<open>
  The body of the \<open>try\<close> block: \<open>Inr b\<close> is \<open>return b\<close>, \<open>Inl e\<close> an exception that
  reaches the \<open>catch\<close>. \<open>pc > size\<close> is false when \<open>size\<close> is \<open>undefined\<close>.
\<close>

definition step_try :: "'m miu_methods \<Rightarrow> 'm CPU \<Rightarrow> 'm \<Rightarrow> 'm CPU \<times> (string + bool)" where
  "step_try mi s m =
     (if (case miu_size mi m of None \<Rightarrow> False | Some sz \<Rightarrow> unat (pc s) > sz) then
        (exception s 0xFF, Inr False)
      else
        (case (case breakpointManager s of
                 None \<Rightarrow> (None, False)
               | Some bm \<Rightarrow> map_prod Some id (checkBreakpoint bm (pc s))) of
           (bmo, True) \<Rightarrow>
             (s\<lparr>breakpointManager := map_option (\<lambda>bm. bm\<lparr>paused := True\<rparr>) bmo\<rparr>, Inr False)
         | (bmo, False) \<Rightarrow>
             miu_read (readU32 mi) (pc s) (s\<lparr>breakpointManager := bmo\<rparr>)
               (\<lambda>encoded s1.
                  case step_dispatch mi s1 encoded of
                    (s2, Inl e) \<Rightarrow> (s2, Inl e)
                  | (s2, Inr result) \<Rightarrow>
                      (let s3 = (if result \<noteq> 0 then s2\<lparr>pc := pc s2 + of_nat result\<rparr> else s2)
                       in (s3\<lparr>cycles := cycles s3 + 1, instructions := instructions s3 + 1\<rparr>,
                           Inr True)))))"

text \<open>
  \<open>CPU.prototype.step\<close> as CPU part 2 defines it. \<open>integration.js\<close> (in \<open>main.js\<close>)
  keeps this function as \<open>OriginalCPUStep\<close> and puts the wrapper \<open>step\<close> below in its
  place.
\<close>

definition OriginalCPUStep :: "'m miu_methods \<Rightarrow> 'm CPU \<Rightarrow> 'm CPU \<times> bool" where
  "OriginalCPUStep mi s =
     (if \<not> initialized s then (s, False)
      else if halted s then (s, False)
      else
        (case miu s of
           None \<Rightarrow>
             (let s1 = s\<lparr>fault_count := fault_count s + 1,
                         last_error := Some miu_error_message\<rparr>;
                  s2 = (if fault_count s1 > 100 then s1\<lparr>halted := True\<rparr> else s1)
              in (s2, False))
         | Some m \<Rightarrow>
             (let s0 = s\<lparr>fault_count := 0\<rparr> in
              case step_try mi s0 m of
                (s1, Inr b) \<Rightarrow> (s1, b)
              | (s1, Inl e) \<Rightarrow>
                  (s1\<lparr>last_error := Some e, fault_count := fault_count s1 + 1\<rparr>, False))))"

text \<open>
  The \<open>step()\<close> of the running program: the override installed by \<open>integration.js\<close>.
  It returns false at a halted CPU; without memory interface it counts a fault and
  returns false, before the guard of the original is reached; otherwise it resets
  \<open>fault_count\<close> and calls the original. The original catches whatever its \<open>try\<close>
  block throws and nothing outside that block can throw, so the \<open>catch\<close> of the
  wrapper is never entered.
\<close>

definition step :: "'m miu_methods \<Rightarrow> 'm CPU \<Rightarrow> 'm CPU \<times> bool" where
  "step mi s =
     (if halted s then (s, False)
      else
        (case miu s of
           None \<Rightarrow> (s\<lparr>fault_count := fault_count s + 1\<rparr>, False)
         | Some m \<Rightarrow> OriginalCPUStep mi (s\<lparr>fault_count := 0\<rparr>)))"

text \<open>The state after \<open>n\<close> consecutive calls of \<open>step()\<close>.\<close>

fun steps :: "'m miu_methods \<Rightarrow> nat \<Rightarrow> 'm CPU \<Rightarrow> 'm CPU" where
  "steps mi 0 s = s"
| "steps mi (Suc n) s = steps mi n (fst (step mi s))"

definition halt :: "'m CPU \<Rightarrow> 'm CPU" where
  "halt s = s\<lparr>halted := True\<rparr>"

definition resume :: "'m CPU \<Rightarrow> 'm CPU \<times> bool" where
  "resume s = (if \<not> initialized s then (s, False) else (s\<lparr>halted := False\<rparr>, True))"

section \<open>Interrupt controller (interrupt.js)\<close>

text \<open>
  The controller holds a reference to the CPU (\<open>None\<close> until \<open>connectCPU\<close>); the CPU
  object is kept in the field, so that what \<open>trigger\<close> does to it is visible in the
  result. The registers are modelled by their 32-bit patterns. The CPU class always has
  the method \<open>exception\<close>, so the \<open>typeof\<close> test succeeds. Nothing in \<open>trigger\<close> can
  throw, so it has no error result.
\<close>

text \<open>
  The argument of \<open>trigger\<close> as the code receives it: \<open>undefined\<close> or \<open>null\<close>; an
  integer; or a value that is not a number, which is \<open>NaN\<close> itself or an object (the
  callers that still use the two-argument form \<open>trigger(cpu, irq)\<close> pass the CPU object
  here). An object converts to \<open>NaN\<close> in comparisons and arithmetic and to 0 in bitwise
  operators, as \<open>NaN\<close> does. Fractional numbers are not modelled.
\<close>

datatype js_arg = Undefined | Num int | NotANumber

text \<open>
  \<open>exception(cause)\<close> for a cause that is not a number: \<open>cause & 0x3F\<close> is 0, and
  \<open>(cr[3] + cause * 4) >>> 0\<close> is \<open>NaN >>> 0\<close>, which is 0.
\<close>

definition exception_NaN :: "'m CPU \<Rightarrow> 'm CPU" where
  "exception_NaN s =
     (let s1 = packSR0 s;
          s2 = s1\<lparr>cr := (cr s1)(1 := sr s1 0)\<rparr>;
          s3 = s2\<lparr>cr := (cr s2)(2 := (cr s2 2 AND NOT 0x00FC0000) OR push_bit 18 (0 AND 0x3F))\<rparr>;
          s4 = s3\<lparr>cr := (cr s3)(5 := pc s3)\<rparr>;
          s5 = s4\<lparr>cr := (cr s4)(0 := cr s4 0 AND NOT 1)\<rparr>
      in s5\<lparr>pc := 0\<rparr>)"

text \<open>
  The three places where \<open>trigger\<close> uses its argument: the range test
  \<open>irqNumber < 0 || irqNumber > 31\<close>, false on both sides for what is not a number; the
  shift count of \<open>1 << irqNumber\<close>, 0 for what is not a number; and the call
  \<open>this.cpu.exception(irqNumber)\<close>.
\<close>

definition out_of_range :: "js_arg \<Rightarrow> bool" where
  "out_of_range a = (case a of Num irq \<Rightarrow> irq < 0 \<or> irq > 31 | _ \<Rightarrow> False)"

definition shift_count :: "js_arg \<Rightarrow> nat" where
  "shift_count a = (case a of Num irq \<Rightarrow> nat irq | _ \<Rightarrow> 0)"

definition call_exception :: "'m CPU \<Rightarrow> js_arg \<Rightarrow> 'm CPU" where
  "call_exception c a = (case a of Num irq \<Rightarrow> exception c (nat irq) | _ \<Rightarrow> exception_NaN c)"

record 'm InterruptController =
  cpu :: "'m CPU option"
  INT_MASK :: u32
  INT_PRIO :: u32
  INT_STATUS :: u32
  INT_ACK :: u32
  triggered :: nat
  processed :: nat
  blocked :: nat

definition new_InterruptController :: "'m InterruptController" where
  "new_InterruptController = \<lparr>cpu = None, INT_MASK = 0xFFFFFFFF, INT_PRIO = 0,
     INT_STATUS = 0, INT_ACK = 0, triggered = 0, processed = 0, blocked = 0\<rparr>"

definition connectCPU :: "'m InterruptController \<Rightarrow> 'm CPU option \<Rightarrow> 'm InterruptController" where
  "connectCPU ic c = ic\<lparr>cpu := c\<rparr>"

definition trigger :: "'m InterruptController \<Rightarrow> js_arg \<Rightarrow> 'm InterruptController" where
  "trigger ic irqNumber =
     (if irqNumber = Undefined then ic\<lparr>blocked := blocked ic + 1\<rparr>
      else if out_of_range irqNumber then ic\<lparr>blocked := blocked ic + 1\<rparr>
      else
        (let ic1 = ic\<lparr>triggered := triggered ic + 1\<rparr>;
             ic2 = ic1\<lparr>INT_STATUS := INT_STATUS ic1 OR push_bit (shift_count irqNumber) 1\<rparr>;
             isEnabled = (INT_MASK ic2 AND push_bit (shift_count irqNumber) 1 \<noteq> 0)
         in
         case cpu ic2 of
           Some c \<Rightarrow>
             if isEnabled then
               ic2\<lparr>cpu := Some (call_exception c irqNumber), processed := processed ic2 + 1\<rparr>
             else ic2\<lparr>blocked := blocked ic2 + 1\<rparr>
         | None \<Rightarrow> ic2\<lparr>blocked := blocked ic2 + 1\<rparr>))"



section \<open>Concrete machines used for evaluation\<close>

text \<open>
  A memory interface without state whose every 32-bit read returns the word \<open>w\<close>, with
  no \<open>size\<close> property; and one whose 32-bit read throws.
\<close>

definition const_miu :: "u32 \<Rightarrow> unit miu_methods" where
  "const_miu w = \<lparr>miu_size = (\<lambda>_. None),
     readU8 = (\<lambda>m a. (m, Inr 0)), readU16 = (\<lambda>m a. (m, Inr 0)),
     readU32 = (\<lambda>m a. (m, Inr w)),
     writeU8 = (\<lambda>m a v. (m, None)), writeU16 = (\<lambda>m a v. (m, None)),
     writeU32 = (\<lambda>m a v. (m, None))\<rparr>"

definition throwing_miu :: "unit miu_methods" where
  "throwing_miu = \<lparr>miu_size = (\<lambda>_. None),
     readU8 = (\<lambda>m a. (m, Inl ''fault'')), readU16 = (\<lambda>m a. (m, Inl ''fault'')),
     readU32 = (\<lambda>m a. (m, Inl ''fault'')),
     writeU8 = (\<lambda>m a v. (m, Some ''fault'')), writeU16 = (\<lambda>m a v. (m, Some ''fault'')),
     writeU32 = (\<lambda>m a v. (m, Some ''fault''))\<rparr>"

text \<open>A CPU constructed without interface and then initialised with one.\<close>

definition booted :: "unit CPU" where
  "booted = fst (initializeCPU (new_CPU None) (Some ()))"

text \<open>A booted CPU at \<open>0x9E000010\<close> with flags N, C and T set.\<close>

definition in_handler :: "unit CPU" where
  "in_handler = (setPC booted 0x9E000010)\<lparr>N := 1, Z := 0, C := 1, V := 0, T := 1\<rparr>"

text \<open>A fresh interrupt controller connected to that CPU.\<close>

definition intc_connected :: "unit InterruptController" where
  "intc_connected = connectCPU new_InterruptController (Some in_handler)"

text \<open>The booted CPU after its memory interface has been detached.\<close>

definition detached :: "unit CPU" where
  "detached = booted\<lparr>miu := None\<rparr>"

section \<open>Auxiliary facts about words\<close>

lemma flag_cases: "(x::u32) \<le> 1 \<Longrightarrow> x = 0 \<or> x = 1"
  by (simp add: word_le_less_eq word_less_1, blast)

lemma flag_and_1: "(x::u32) \<le> 1 \<Longrightarrow> x AND 1 = x"
  using flag_cases [of x] by auto

lemma drop_bit_and_1: "drop_bit n (x::u32) AND 1 = (if bit x n then 1 else 0)"
  by (simp add: and_one_eq bit_iff_odd_drop_bit mod_2_eq_odd)

lemma carry_iff:
  "(0xFFFFFFFF - unat (a::u32) < unat (b::u32)) = (2 ^ 32 \<le> uint a + uint b)"
proof -
  have bound: "unat a < 4294967296"
    using unsigned_less [of a, where 'a = nat] by simp
  have s: "uint a + uint b = int (unat a + unat b)" by simp
  have "(2 ^ 32 \<le> uint a + uint b) = ((4294967296::int) \<le> int (unat a + unat b))"
    by (simp only: s) simp
  also have "\<dots> = (4294967296 \<le> unat a + unat b)" by linarith
  also have "\<dots> = (0xFFFFFFFF - unat a < unat b)" using bound by linarith
  finally show ?thesis by simp
qed

lemma carry_claim:
  "(0xFFFFFFFF - unat (a::u32) < unat (b::u32)) = (0xFFFFFFFF - uint a < uint b)"
  unfolding carry_iff by auto

lemma le_claim: "(unat (b::u32) \<le> unat (a::u32)) = (uint b \<le> uint a)"
  by (simp only: flip: word_le_nat_alt word_le_def)

section \<open>Addition and subtraction\<close>

lemma add_result: "snd (add s a b uf) = a + b"
  by (simp add: add_def Let_def)

lemma sub_result: "snd (sub s a b uf) = a - b"
  by (simp add: sub_def Let_def)

lemma add_flags:
  "N (fst (add s a b True)) = (if bit (a + b) 31 then 1 else 0)"
  "Z (fst (add s a b True)) = (if a + b = 0 then 1 else 0)"
  "C (fst (add s a b True)) = (if 0xFFFFFFFF - uint a < uint b then 1 else 0)"
  by (simp_all add: add_def Let_def updateBasicFlags_def drop_bit_and_1 carry_claim)

lemma sub_flags:
  "N (fst (sub s a b True)) = (if bit (a - b) 31 then 1 else 0)"
  "Z (fst (sub s a b True)) = (if a - b = 0 then 1 else 0)"
  "C (fst (sub s a b True)) = (if uint b \<le> uint a then 1 else 0)"
  by (simp_all add: sub_def Let_def updateBasicFlags_def drop_bit_and_1 le_claim)

text \<open>
  Claim C5. For all 32-bit values \<open>a\<close> and \<open>b\<close>, \<open>sub(a, b, true)\<close> returns
  \<open>(a - b) mod 2^32\<close> and sets \<open>C = 1\<close> exactly when \<open>a \<ge> b\<close>; \<open>add(a, b, true)\<close>
  returns \<open>(a + b) mod 2^32\<close> and sets \<open>C = 1\<close> exactly when \<open>b > 0xFFFFFFFF - a\<close>; both
  set \<open>N\<close> to bit 31 of the result and \<open>Z = 1\<close> exactly when the result is 0. The
  comparisons are on the unsigned values, without wrap-around.
\<close>

theorem add_sub_results_and_flags:
  "uint (snd (sub s a b True)) = (uint a - uint b) mod 2 ^ 32 \<and>
   C (fst (sub s a b True)) = (if uint a \<ge> uint b then 1 else 0) \<and>
   N (fst (sub s a b True)) = (if bit (snd (sub s a b True)) 31 then 1 else 0) \<and>
   Z (fst (sub s a b True)) = (if snd (sub s a b True) = 0 then 1 else 0) \<and>
   uint (snd (add s a b True)) = (uint a + uint b) mod 2 ^ 32 \<and>
   C (fst (add s a b True)) = (if uint b > 0xFFFFFFFF - uint a then 1 else 0) \<and>
   N (fst (add s a b True)) = (if bit (snd (add s a b True)) 31 then 1 else 0) \<and>
   Z (fst (add s a b True)) = (if snd (add s a b True) = 0 then 1 else 0)"
  by (simp add: add_result sub_result add_flags sub_flags uint_word_ariths)

theorem add_sub_results_and_flags_witness:
  "snd (sub booted 5 7 True) = 0xFFFFFFFE \<and> C (fst (sub booted 5 7 True)) = 0 \<and>
   N (fst (sub booted 5 7 True)) = 1 \<and> Z (fst (sub booted 5 7 True)) = 0 \<and>
   snd (add booted 0xFFFFFFFF 1 True) = 0 \<and> C (fst (add booted 0xFFFFFFFF 1 True)) = 1 \<and>
   N (fst (add booted 0xFFFFFFFF 1 True)) = 0 \<and> Z (fst (add booted 0xFFFFFFFF 1 True)) = 1"
  using add_sub_results_and_flags [of booted 5 7]
    add_sub_results_and_flags [of booted "0xFFFFFFFF" 1]
  by (simp add: add_result sub_result)

section \<open>Division by zero\<close>

text \<open>
  Claim C8. For every 32-bit value \<open>a\<close>, \<open>execDiv(a, 0)\<close> and \<open>execDivu(a, 0)\<close> leave the
  whole CPU state as it was: \<open>CEL\<close>, \<open>CEH\<close>, the registers, the flags and \<open>pc\<close> are
  unchanged and no exception is entered.
\<close>

theorem div_by_zero_noop: "execDiv s a 0 = s \<and> execDivu s a 0 = s"
  by (simp add: execDiv_def execDivu_def)

theorem div_by_zero_noop_witness:
  "execDiv (booted\<lparr>CEL := 7, CEH := 9\<rparr>) 0x80000000 0 = booted\<lparr>CEL := 7, CEH := 9\<rparr> \<and>
   execDivu (booted\<lparr>CEL := 7, CEH := 9\<rparr>) 0x80000000 0 = booted\<lparr>CEL := 7, CEH := 9\<rparr>"
  using div_by_zero_noop [of "booted\<lparr>CEL := 7, CEH := 9\<rparr>" "0x80000000"] by simp

section \<open>Flags in \<open>sr[0]\<close>, exception entry and return\<close>

lemma unpack_pack_flags:
  "N (unpackSR0 (packSR0 s)) = N s AND 1"
  "Z (unpackSR0 (packSR0 s)) = Z s AND 1"
  "C (unpackSR0 (packSR0 s)) = C s AND 1"
  "V (unpackSR0 (packSR0 s)) = V s AND 1"
  "T (unpackSR0 (packSR0 s)) = T s AND 1"
  by (simp_all add: unpackSR0_def packSR0_def Let_def)
    (rule bit_word_eqI; auto simp add: bit_simps)+

lemma rte_exception_unpack:
  "rte (exception s k) = (unpackSR0 (packSR0 s))\<lparr>cr := cr (exception s k)\<rparr>"
  by (simp add: rte_def exception_def unpackSR0_def packSR0_def Let_def)

lemma pc_unpack_pack: "pc (unpackSR0 (packSR0 s)) = pc s"
  by (simp add: unpackSR0_def packSR0_def Let_def)

text \<open>
  Claim C4. For every CPU state whose flags \<open>N, Z, C, V, T\<close> are bits (each of the 32
  combinations), \<open>exception(5)\<close> followed by \<open>rte()\<close> restores \<open>pc\<close> and the five
  flags to their values before the exception, and \<open>packSR0()\<close> followed by
  \<open>unpackSR0()\<close> reproduces the five flags.
\<close>

theorem exception_rte_roundtrip:
  assumes "N s \<le> 1" "Z s \<le> 1" "C s \<le> 1" "V s \<le> 1" "T s \<le> 1"
  shows "pc (rte (exception s 5)) = pc s \<and>
    N (rte (exception s 5)) = N s \<and> Z (rte (exception s 5)) = Z s \<and>
    C (rte (exception s 5)) = C s \<and> V (rte (exception s 5)) = V s \<and>
    T (rte (exception s 5)) = T s \<and>
    N (unpackSR0 (packSR0 s)) = N s \<and> Z (unpackSR0 (packSR0 s)) = Z s \<and>
    C (unpackSR0 (packSR0 s)) = C s \<and> V (unpackSR0 (packSR0 s)) = V s \<and>
    T (unpackSR0 (packSR0 s)) = T s"
  unfolding rte_exception_unpack
  using assms by (simp add: unpack_pack_flags pc_unpack_pack flag_and_1)

lemma in_handler_fields:
  "N in_handler = 1" "Z in_handler = 0" "C in_handler = 1" "V in_handler = 0"
  "T in_handler = 1" "pc in_handler = 0x9E000010" "cr in_handler = (\<lambda>_. 0)"
  by (simp_all add: in_handler_def setPC_def booted_def initializeCPU_def new_CPU_def)

theorem exception_rte_roundtrip_witness:
  "N in_handler \<le> 1 \<and> Z in_handler \<le> 1 \<and> C in_handler \<le> 1 \<and> V in_handler \<le> 1 \<and>
   T in_handler \<le> 1 \<and>
   pc (rte (exception in_handler 5)) = 0x9E000010 \<and>
   N (rte (exception in_handler 5)) = 1 \<and> Z (rte (exception in_handler 5)) = 0 \<and>
   C (rte (exception in_handler 5)) = 1 \<and> V (rte (exception in_handler 5)) = 0 \<and>
   T (rte (exception in_handler 5)) = 1 \<and>
   pc (exception in_handler 5) = 20"
proof -
  have v: "pc (exception in_handler 5) = 20"
    by (simp add: exception_def packSR0_def Let_def in_handler_fields)
  show ?thesis
    using exception_rte_roundtrip [of in_handler] v by (simp add: in_handler_fields)
qed

section \<open>Interrupt delivery\<close>

lemma mask_test: "((w::u32) AND 2 ^ n \<noteq> 0) = bit w n" "((w::u32) AND 2 ^ n = 0) = (\<not> bit w n)"
  by (simp_all add: and_exp_eq_0_iff_not_bit)

lemma trigger_valid:
  assumes "0 \<le> irq" "irq \<le> 31"
  shows "trigger ic (Num irq) =
    (if bit (INT_MASK ic) (nat irq) \<and> cpu ic \<noteq> None then
       ic\<lparr>triggered := triggered ic + 1,
          INT_STATUS := INT_STATUS ic OR push_bit (nat irq) 1,
          cpu := map_option (\<lambda>c. exception c (nat irq)) (cpu ic),
          processed := processed ic + 1\<rparr>
     else
       ic\<lparr>triggered := triggered ic + 1,
          INT_STATUS := INT_STATUS ic OR push_bit (nat irq) 1,
          blocked := blocked ic + 1\<rparr>)"
  using assms
  by (auto simp add: trigger_def out_of_range_def shift_count_def call_exception_def Let_def
      mask_test split: option.splits)







lemma intc_connected_fields:
  "cpu intc_connected = Some in_handler" "INT_MASK intc_connected = 0xFFFFFFFF"
  "INT_STATUS intc_connected = 0" "blocked intc_connected = 0" "processed intc_connected = 0"
  "triggered intc_connected = 0"
  by (simp_all add: intc_connected_def connectCPU_def new_InterruptController_def)



text \<open>
  Claim C10. With \<open>irq\<close> enabled and a CPU connected, \<open>trigger(irq)\<close> enters the
  exception whatever the CPU state is: no hypothesis is made on \<open>cr[0]\<close>, \<open>halted\<close>
  or \<open>initialized\<close>, and the instances with a halted CPU, an uninitialised CPU and bit
  0 of \<open>cr[0]\<close> cleared are spelled out. The entry stores the packed flags in \<open>cr[1]\<close>
  and \<open>pc\<close> in \<open>cr[5]\<close>; a second interrupt during the handler stores the handler's
  own \<open>pc\<close> and flags there, over the first saved state.
\<close>

theorem trigger_delivery_ungated:
  assumes "0 \<le> irq" "irq \<le> 31" "bit (INT_MASK ic) (nat irq)" "cpu ic = Some c"
  shows "cpu (trigger ic (Num irq)) = Some (exception c (nat irq)) \<and>
    cpu (trigger (ic\<lparr>cpu := Some (c\<lparr>halted := True\<rparr>)\<rparr>) (Num irq)) =
      Some (exception (c\<lparr>halted := True\<rparr>) (nat irq)) \<and>
    cpu (trigger (ic\<lparr>cpu := Some (c\<lparr>initialized := False\<rparr>)\<rparr>) (Num irq)) =
      Some (exception (c\<lparr>initialized := False\<rparr>) (nat irq)) \<and>
    cpu (trigger (ic\<lparr>cpu := Some (c\<lparr>cr := (cr c)(0 := cr c 0 AND NOT 1)\<rparr>)\<rparr>) (Num irq)) =
      Some (exception (c\<lparr>cr := (cr c)(0 := cr c 0 AND NOT 1)\<rparr>) (nat irq)) \<and>
    cr (exception c (nat irq)) 1 = sr (packSR0 c) 0 \<and>
    cr (exception c (nat irq)) 5 = pc c \<and>
    pc (exception c (nat irq)) = of_nat (unat (cr c 3) + nat irq * 4) \<and>
    cpu (trigger (trigger ic (Num irq)) (Num irq)) =
      Some (exception (exception c (nat irq)) (nat irq)) \<and>
    cr (exception (exception c (nat irq)) (nat irq)) 5 = of_nat (unat (cr c 3) + nat irq * 4) \<and>
    cr (exception (exception c (nat irq)) (nat irq)) 1 = sr (packSR0 (exception c (nat irq))) 0"
proof -
  have ex: "cr (exception x k) (Suc 0) = sr (packSR0 x) 0" "cr (exception x k) 5 = pc x"
    "pc (exception x k) = of_nat (unat (cr x 3) + k * 4)" for x :: "'a CPU" and k
    by (simp_all add: exception_def packSR0_def Let_def)
  show ?thesis
    using assms by (simp add: trigger_valid ex)
qed

theorem trigger_delivery_ungated_witness:
  "(0::int) \<le> 6 \<and> (6::int) \<le> 31 \<and> bit (INT_MASK intc_connected) 6 \<and>
   cpu intc_connected = Some in_handler \<and>
   cpu (trigger (intc_connected\<lparr>cpu := Some (in_handler\<lparr>halted := True\<rparr>)\<rparr>) (Num 6)) =
      Some (exception (in_handler\<lparr>halted := True\<rparr>) 6) \<and>
   cr (exception in_handler 6) 5 = 0x9E000010 \<and>
   pc (exception in_handler 6) = 24 \<and>
   cr (exception (exception in_handler 6) 6) 5 = 24"
  using trigger_delivery_ungated [of 6 intc_connected in_handler]
  by (simp add: intc_connected_fields in_handler_fields)

section \<open>The fault breaker of \<open>step()\<close>\<close>

lemma steps_add: "steps mi (m + n) s = steps mi n (steps mi m s)"
  by (induction m arbitrary: s) simp_all

lemma steps_Suc_right: "steps mi (Suc n) s = fst (step mi (steps mi n s))"
  by (induction n arbitrary: s) simp_all

lemma step_halted: "halted s \<Longrightarrow> step mi s = (s, False)"
  by (simp add: step_def)

lemma steps_halted: "halted s \<Longrightarrow> steps mi n s = s"
  by (induction n) (simp_all add: step_halted)

text \<open>
  With a memory interface attached the wrapper adds nothing to the original on an
  initialised CPU.
\<close>

lemma step_transparent:
  "initialized s \<Longrightarrow> miu s = Some m \<Longrightarrow> step mi s = OriginalCPUStep mi s"
  by (simp add: step_def OriginalCPUStep_def Let_def)

lemma step_no_miu:
  assumes "\<not> halted s" "miu s = None"
  shows "step mi s = (s\<lparr>fault_count := fault_count s + 1\<rparr>, False)"
  using assms by (simp add: step_def)

lemma OriginalCPUStep_no_miu:
  assumes "initialized s" "\<not> halted s" "miu s = None"
  shows "OriginalCPUStep mi s =
    (s\<lparr>fault_count := fault_count s + 1, last_error := Some miu_error_message,
       halted := (fault_count s + 1 > 100)\<rparr>, False)"
  using assms by (simp add: OriginalCPUStep_def Let_def)

lemma steps_no_miu:
  assumes "\<not> halted s" "miu s = None"
  shows "\<not> halted (steps mi n s) \<and> miu (steps mi n s) = None \<and>
    initialized (steps mi n s) = initialized s \<and>
    fault_count (steps mi n s) = fault_count s + n \<and>
    instructions (steps mi n s) = instructions s"
  using assms
proof (induction n arbitrary: s)
  case 0
  then show ?case by simp
next
  case (Suc n)
  let ?s1 = "fst (step mi s)"
  have "\<not> halted ?s1" "miu ?s1 = None" "initialized ?s1 = initialized s"
    "fault_count ?s1 = fault_count s + 1" "instructions ?s1 = instructions s"
    using Suc.prems by (simp_all add: step_no_miu)
  with Suc.IH [of ?s1] show ?case by simp
qed

lemma detached_fields:
  "initialized detached" "\<not> halted detached" "fault_count detached = 0" "miu detached = None"
  "instructions detached = 0"
  by (simp_all add: detached_def booted_def initializeCPU_def new_CPU_def)

text \<open>
  Claim C3 at a concrete input. The booted CPU, initialised, running and with
  \<open>fault_count = 0\<close>, has its memory interface detached. Every call of \<open>step()\<close>
  returns false and leaves \<open>instructions\<close> at 0, as claimed; but after 101 calls
  \<open>fault_count\<close> is 101 and \<open>halted\<close> is still false, and it stays false after any
  number of calls: the wrapper returns before the breaker of the original is reached.
  The original function, called in place of the 101st call, does set \<open>halted\<close>.
\<close>

theorem integration_step_never_halts:
  "initialized detached \<and> \<not> halted detached \<and> fault_count detached = 0 \<and>
   miu detached = None \<and>
   \<not> halted (steps (const_miu 0) 101 detached) \<and>
   fault_count (steps (const_miu 0) 101 detached) = 101 \<and>
   (\<forall>n. \<not> halted (steps (const_miu 0) n detached) \<and>
        snd (step (const_miu 0) (steps (const_miu 0) n detached)) = False \<and>
        instructions (fst (step (const_miu 0) (steps (const_miu 0) n detached))) = 0) \<and>
   halted (fst (OriginalCPUStep (const_miu 0) (steps (const_miu 0) 100 detached)))"
proof -
  have inv: "\<not> halted (steps (const_miu 0) n detached) \<and>
    miu (steps (const_miu 0) n detached) = None \<and>
    initialized (steps (const_miu 0) n detached) \<and>
    fault_count (steps (const_miu 0) n detached) = n \<and>
    instructions (steps (const_miu 0) n detached) = 0" for n
    using steps_no_miu [where s = detached and n = n and mi = "const_miu 0"]
    by (simp add: detached_fields)
  have a: "\<not> halted (steps (const_miu 0) 101 detached)"
    "fault_count (steps (const_miu 0) 101 detached) = 101"
    using inv [of 101] by simp_all
  have b: "\<not> halted (steps (const_miu 0) n detached) \<and>
        snd (step (const_miu 0) (steps (const_miu 0) n detached)) = False \<and>
        instructions (fst (step (const_miu 0) (steps (const_miu 0) n detached))) = 0" for n
    using inv [of n] by (simp add: step_no_miu)
  have c: "halted (fst (OriginalCPUStep (const_miu 0) (steps (const_miu 0) 100 detached)))"
    using inv [of 100] by (simp add: OriginalCPUStep_no_miu)
  show ?thesis by (intro conjI allI detached_fields(1-4) a b c)
qed

section \<open>One successful step\<close>

lemma checkBreakpoint_miss: "\<not> snd (checkBreakpoint bm a) \<Longrightarrow> fst (checkBreakpoint bm a) = bm"
  by (auto simp add: checkBreakpoint_def Let_def split: option.splits if_splits)

lemma step_try_fetch:
  assumes "miu s = Some m"
    "case miu_size mi m of None \<Rightarrow> True | Some sz \<Rightarrow> unat (pc s) \<le> sz"
    "case breakpointManager s of None \<Rightarrow> True | Some bm \<Rightarrow> \<not> snd (checkBreakpoint bm (pc s))"
  shows "step_try mi s m =
     (case readU32 mi m (pc s) of
        (mm, Inl e) \<Rightarrow> (s\<lparr>miu := Some mm\<rparr>, Inl e)
      | (mm, Inr encoded) \<Rightarrow>
          (case step_dispatch mi (s\<lparr>miu := Some mm\<rparr>) encoded of
             (s2, Inl e) \<Rightarrow> (s2, Inl e)
           | (s2, Inr result) \<Rightarrow>
               ((if result \<noteq> 0 then s2\<lparr>pc := pc s2 + of_nat result\<rparr> else s2)
                  \<lparr>cycles := cycles s2 + 1, instructions := instructions s2 + 1\<rparr>, Inr True)))"
proof -
  have sz: "\<not> (case miu_size mi m of None \<Rightarrow> False | Some sz \<Rightarrow> unat (pc s) > sz)"
    using assms(2) by (simp split: option.splits)
  have bp: "(case breakpointManager s of None \<Rightarrow> (None, False)
               | Some bm \<Rightarrow> map_prod Some id (checkBreakpoint bm (pc s))) =
            (breakpointManager s, False)"
    using assms(3) checkBreakpoint_miss
    by (auto split: option.splits simp add: map_prod_def split_beta prod_eq_iff)
  show ?thesis
    unfolding step_try_def bp using sz assms(1)
    by (simp add: miu_read_def Let_def split: prod.splits sum.splits)
qed

lemma step_fetch:
  assumes "initialized s" "\<not> halted s" "miu s = Some m"
    "case miu_size mi m of None \<Rightarrow> True | Some sz \<Rightarrow> unat (pc s) \<le> sz"
    "case breakpointManager s of None \<Rightarrow> True | Some bm \<Rightarrow> \<not> snd (checkBreakpoint bm (pc s))"
    "readU32 mi m (pc s) = (mm, Inr encoded)"
  shows "step mi s =
     (case step_dispatch mi (s\<lparr>fault_count := 0, miu := Some mm\<rparr>) encoded of
        (s2, Inl e) \<Rightarrow> (s2\<lparr>last_error := Some e, fault_count := fault_count s2 + 1\<rparr>, False)
      | (s2, Inr result) \<Rightarrow>
          ((if result \<noteq> 0 then s2\<lparr>pc := pc s2 + of_nat result\<rparr> else s2)
             \<lparr>cycles := cycles s2 + 1, instructions := instructions s2 + 1\<rparr>, True))"
proof -
  let ?s0 = "s\<lparr>fault_count := 0\<rparr>"
  have st: "step_try mi ?s0 m =
     (case step_dispatch mi (?s0\<lparr>miu := Some mm\<rparr>) encoded of
             (s2, Inl e) \<Rightarrow> (s2, Inl e)
           | (s2, Inr result) \<Rightarrow>
               ((if result \<noteq> 0 then s2\<lparr>pc := pc s2 + of_nat result\<rparr> else s2)
                  \<lparr>cycles := cycles s2 + 1, instructions := instructions s2 + 1\<rparr>, Inr True))"
    using assms(3-6) by (subst step_try_fetch) (simp_all split: option.splits)
  show ?thesis
  proof (cases "step_dispatch mi (s\<lparr>fault_count := 0, miu := Some mm\<rparr>) encoded")
    case (Pair s2 res)
    then show ?thesis
      using assms(1-3) st by (cases res) (simp_all add: step_def OriginalCPUStep_def Let_def)
  qed
qed

lemma step_fetch_throws:
  assumes "initialized s" "\<not> halted s" "miu s = Some m"
    "case miu_size mi m of None \<Rightarrow> True | Some sz \<Rightarrow> unat (pc s) \<le> sz"
    "case breakpointManager s of None \<Rightarrow> True | Some bm \<Rightarrow> \<not> snd (checkBreakpoint bm (pc s))"
    "readU32 mi m (pc s) = (mm, Inl e)"
  shows "step mi s = (s\<lparr>fault_count := 1, miu := Some mm, last_error := Some e\<rparr>, False)"
proof -
  let ?s0 = "s\<lparr>fault_count := 0\<rparr>"
  have "step_try mi ?s0 m = (?s0\<lparr>miu := Some mm\<rparr>, Inl e)"
    using assms(3-6) by (subst step_try_fetch) (simp_all split: option.splits)
  then show ?thesis
    using assms(1-3) by (simp add: step_def OriginalCPUStep_def Let_def)
qed

lemma dispatch_unassigned:
  "drop_bit 27 encoded AND 0x1F = 0x06 \<Longrightarrow> step_dispatch mi s encoded = (s, Inr 4)"
  by (simp add: step_dispatch_def Let_def)

lemma dispatch_jform:
  "drop_bit 27 encoded AND 0x1F = 0x02 \<Longrightarrow>
   step_dispatch mi s encoded = map_prod id Inr (execJForm s encoded)"
  by (simp add: step_dispatch_def Let_def)

lemma booted_fields:
  "initialized booted" "\<not> halted booted" "miu booted = Some ()" "breakpointManager booted = None"
  "pc booted = 0" "r booted = (\<lambda>_. 0)" "fault_count booted = 0"
  by (simp_all add: booted_def initializeCPU_def new_CPU_def)

lemma in_handler_run:
  "initialized in_handler" "\<not> halted in_handler" "miu in_handler = Some ()"
  "breakpointManager in_handler = None" "r in_handler = (\<lambda>_. 0)"
  "cycles in_handler = 0" "instructions in_handler = 0"
  by (simp_all add: in_handler_def setPC_def booted_def initializeCPU_def new_CPU_def)

lemma const_miu_fields:
  "miu_size (const_miu w) m = None" "readU32 (const_miu w) m a = (m, Inr w)"
  "writeU32 (const_miu w) m a v = (m, None)"
  by (simp_all add: const_miu_def)

lemma step_const_miu:
  assumes "initialized s" "\<not> halted s" "miu s = Some ()" "breakpointManager s = None"
  shows "step (const_miu w) s =
     (case step_dispatch (const_miu w) (s\<lparr>fault_count := 0, miu := Some ()\<rparr>) w of
        (s2, Inl e) \<Rightarrow> (s2\<lparr>last_error := Some e, fault_count := fault_count s2 + 1\<rparr>, False)
      | (s2, Inr result) \<Rightarrow>
          ((if result \<noteq> 0 then s2\<lparr>pc := pc s2 + of_nat result\<rparr> else s2)
             \<lparr>cycles := cycles s2 + 1, instructions := instructions s2 + 1\<rparr>, True))"
  by (rule step_fetch) (simp_all add: assms const_miu_fields)

text \<open>
  Claim C9. On an initialised, running CPU with the memory interface attached, \<open>pc\<close>
  within its size and no breakpoint hit, a fetched word whose top five bits are
  \<open>0x06\<close> is a successful no-op of four bytes: \<open>step()\<close> returns true, \<open>pc\<close> goes up
  by 4, \<open>cycles\<close> and \<open>instructions\<close> by 1, and nothing else of the CPU changes (no
  register bank, flag, \<open>CEL\<close>, \<open>CEH\<close>) but \<open>fault_count\<close>, reset to 0; the memory
  interface is in the state the fetch itself left it in.
\<close>

theorem unassigned_opcode_is_nop:
  assumes "initialized s" "\<not> halted s" "miu s = Some m"
    "case miu_size mi m of None \<Rightarrow> True | Some sz \<Rightarrow> unat (pc s) \<le> sz"
    "case breakpointManager s of None \<Rightarrow> True | Some bm \<Rightarrow> \<not> snd (checkBreakpoint bm (pc s))"
    "readU32 mi m (pc s) = (mm, Inr encoded)"
    "drop_bit 27 encoded AND 0x1F = 0x06"
  shows "step mi s =
    (s\<lparr>fault_count := 0, miu := Some mm, pc := pc s + 4, cycles := cycles s + 1,
       instructions := instructions s + 1\<rparr>, True)"
  using assms(7) by (simp add: step_fetch [OF assms(1-6)] dispatch_unassigned)

theorem unassigned_opcode_is_nop_witness:
  "initialized in_handler \<and> \<not> halted in_handler \<and> miu in_handler = Some () \<and>
   miu_size (const_miu 0x30000000) () = None \<and> breakpointManager in_handler = None \<and>
   readU32 (const_miu 0x30000000) () (pc in_handler) = ((), Inr 0x30000000) \<and>
   drop_bit 27 (0x30000000 :: u32) AND 0x1F = 0x06 \<and>
   step (const_miu 0x30000000) in_handler =
     (in_handler\<lparr>fault_count := 0, miu := Some (), pc := 0x9E000014, cycles := 1,
        instructions := 1\<rparr>, True)"
  using unassigned_opcode_is_nop [where s = in_handler and mi = "const_miu 0x30000000"
      and m = "()" and mm = "()" and encoded = "0x30000000"]
  by (simp add: in_handler_run in_handler_fields const_miu_fields)

section \<open>J-Form jumps\<close>

lemma signExtend_signed_take_bit:
  assumes "0 < b" "b < 32"
  shows "signExtend x b = signed_take_bit (b - 1) x"
proof -
  have m: "(push_bit b 1 - 1 :: u32) = mask b"
    by (simp add: mask_eq_exp_minus_1)
  have "((x AND mask b) AND 2 ^ (b - 1) = 0) = (\<not> bit (x AND mask b) (b - 1))"
    by (rule and_exp_eq_0_iff_not_bit)
  also have "\<dots> = (\<not> bit x (b - 1))"
    using assms by (auto simp add: bit_simps)
  finally have t: "((x AND mask b) AND push_bit (b - 1) 1 \<noteq> 0) = bit x (b - 1)"
    by simp
  have n: "(push_bit b (- 1) :: u32) = NOT (mask b)"
    by (simp add: push_bit_minus_one_eq_not_mask)
  have k: "n < b \<Longrightarrow> b - Suc 0 \<le> n \<Longrightarrow> n = b - Suc 0" for n
    using assms by arith
  have k2: "\<not> b - Suc 0 \<le> n \<Longrightarrow> n < b" for n
    using assms by arith
  show ?thesis
    using assms unfolding signExtend_def Let_def m t n
    by (auto intro!: bit_word_eqI simp add: bit_simps min_def split: if_splits dest: k k2)
qed

lemma signExtend_24_value:
  fixes d :: u32
  assumes "d = x AND 0xFFFFFF"
  shows "signExtend d 24 = word_of_int (uint d - (if bit d 23 then 2 ^ 24 else 0))"
proof -
  have tb: "take_bit 24 d = d"
    unfolding assms by (simp add: take_bit_eq_mask mask_numeral and.assoc)
  have "signExtend d 24 = signed_take_bit 23 d"
    by (simp add: signExtend_signed_take_bit)
  also have "\<dots> = take_bit 24 d - 2 ^ 24 * of_bool (bit d 23)"
    using signed_take_bit_eq_take_bit_minus [of 23 d] by simp
  also have "\<dots> = word_of_int (uint d - (if bit d 23 then 2 ^ 24 else 0))"
    unfolding tb by simp
  finally show ?thesis .
qed

lemma jform_target_value:
  fixes d p :: u32
  assumes "d = x AND 0xFFFFFF"
  shows "uint (p + push_bit 1 (signExtend d 24)) =
    (uint p + 2 * (uint d - (if bit d 23 then 2 ^ 24 else 0))) mod 2 ^ 32"
proof -
  have "p + push_bit 1 (signExtend d 24) =
      word_of_int (uint p + 2 * (uint d - (if bit d 23 then 2 ^ 24 else 0)))"
    unfolding signExtend_24_value [OF assms] by (simp add: push_bit_eq_mult)
  then show ?thesis
    by (simp only: uint_word_of_int_eq take_bit_eq_mod) simp
qed

lemma d_bound:
  fixes d :: u32
  assumes "d = x AND 0xFFFFFF"
  shows "uint d < 2 ^ 24"
proof -
  have "d \<le> 0xFFFFFF" unfolding assms by (rule word_and_le1)
  then show ?thesis by (simp add: word_le_def)
qed

lemma jform_backward:
  fixes d p :: u32
  assumes "d = x AND 0xFFFFFF" "bit d 23" "2 * (2 ^ 24 - uint d) \<le> uint p"
  shows "p + push_bit 1 (signExtend d 24) < p"
proof -
  have b: "uint d < 2 ^ 24" using assms(1) by (rule d_bound)
  have pb: "uint p < 2 ^ 32" using uint_lt2p [of p] by simp
  let ?k = "uint p + 2 * (uint d - 2 ^ 24)"
  have "0 \<le> ?k" "?k < uint p" "?k < 2 ^ 32" using b pb assms(3) by simp_all
  then have "?k mod 2 ^ 32 < uint p" by simp
  then show ?thesis
    using jform_target_value [OF assms(1), of p] assms(2) by (simp add: word_less_def)
qed

lemma step_jform:
  assumes "initialized s" "\<not> halted s" "miu s = Some m"
    "case miu_size mi m of None \<Rightarrow> True | Some sz \<Rightarrow> unat (pc s) \<le> sz"
    "case breakpointManager s of None \<Rightarrow> True | Some bm \<Rightarrow> \<not> snd (checkBreakpoint bm (pc s))"
    "readU32 mi m (pc s) = (mm, Inr insn)"
    "drop_bit 27 insn AND 0x1F = 0x02"
  shows "step mi s =
    ((if insn AND 1 \<noteq> 0 then setRegister (s\<lparr>fault_count := 0, miu := Some mm\<rparr>) 3 (pc s + 4)
      else s\<lparr>fault_count := 0, miu := Some mm\<rparr>)
       \<lparr>pc := pc s + push_bit 1 (signExtend (drop_bit 1 insn AND 0xFFFFFF) 24),
        cycles := cycles s + 1, instructions := instructions s + 1\<rparr>, True)"
  using assms(7)
  by (simp add: step_fetch [OF assms(1-6)] dispatch_jform execJForm_def Let_def setRegister_def)

text \<open>
  Claim C6, amended. A step that fetches a J-Form word sets \<open>pc\<close> to
  \<open>(pc + (signExtend(disp24, 24) << 1)) mod 2^32\<close>, that is \<open>pc + 2 * disp24\<close> for a
  displacement with bit 23 clear and \<open>pc - 2 * (2^24 - disp24)\<close> for one with bit 23
  set, modulo \<open>2^32\<close>; with the link bit set, register 3 receives \<open>pc + 4\<close>. A
  displacement with bit 23 set jumps backward (target below \<open>pc\<close>) whenever
  \<open>pc \<ge> 2 * (2^24 - disp24)\<close>, so that the subtraction does not wrap around; in
  particular \<open>disp24 = 0xFFFFFF\<close> at \<open>pc = 0x9E000010\<close> leaves \<open>pc = 0x9E00000E\<close>.
\<close>

theorem jform_jump:
  fixes insn :: u32
  defines "d \<equiv> drop_bit 1 insn AND 0xFFFFFF"
  assumes "initialized s" "\<not> halted s" "miu s = Some m"
    "case miu_size mi m of None \<Rightarrow> True | Some sz \<Rightarrow> unat (pc s) \<le> sz"
    "case breakpointManager s of None \<Rightarrow> True | Some bm \<Rightarrow> \<not> snd (checkBreakpoint bm (pc s))"
    "readU32 mi m (pc s) = (mm, Inr insn)"
    "drop_bit 27 insn AND 0x1F = 0x02"
  shows "snd (step mi s) = True \<and>
    pc (fst (step mi s)) = pc s + push_bit 1 (signExtend d 24) \<and>
    uint (pc (fst (step mi s))) =
      (uint (pc s) + 2 * (uint d - (if bit d 23 then 2 ^ 24 else 0))) mod 2 ^ 32 \<and>
    r (fst (step mi s)) = (if insn AND 1 \<noteq> 0 then (r s)(3 := pc s + 4) else r s) \<and>
    (bit d 23 \<and> 2 * (2 ^ 24 - uint d) \<le> uint (pc s) \<longrightarrow> pc (fst (step mi s)) < pc s) \<and>
    (pc s = 0x9E000010 \<and> d = 0xFFFFFF \<longrightarrow> pc (fst (step mi s)) = 0x9E00000E)"
proof -
  have st: "step mi s =
    ((if insn AND 1 \<noteq> 0 then setRegister (s\<lparr>fault_count := 0, miu := Some mm\<rparr>) 3 (pc s + 4)
      else s\<lparr>fault_count := 0, miu := Some mm\<rparr>)
       \<lparr>pc := pc s + push_bit 1 (signExtend d 24),
        cycles := cycles s + 1, instructions := instructions s + 1\<rparr>, True)"
    unfolding d_def using assms(2-8) by (rule step_jform)
  have d: "d = drop_bit 1 insn AND 0xFFFFFF" by (simp add: d_def)
  have p: "pc (fst (step mi s)) = pc s + push_bit 1 (signExtend d 24)"
    by (simp add: st)
  have v: "uint (pc (fst (step mi s))) =
      (uint (pc s) + 2 * (uint d - (if bit d 23 then 2 ^ 24 else 0))) mod 2 ^ 32"
    unfolding p by (rule jform_target_value [OF d])
  have bw: "pc (fst (step mi s)) < pc s" if "bit d 23" "2 * (2 ^ 24 - uint d) \<le> uint (pc s)"
    unfolding p using d that by (rule jform_backward)
  have scen: "pc (fst (step mi s)) = 0x9E00000E" if "pc s = 0x9E000010" "d = 0xFFFFFF"
  proof (rule word_uint_eqI)
    show "uint (pc (fst (step mi s))) = uint (0x9E00000E :: u32)"
      unfolding v using that by simp
  qed
  have regs: "r (fst (step mi s)) = (if insn AND 1 \<noteq> 0 then (r s)(3 := pc s + 4) else r s)"
    by (simp add: st setRegister_def)
  show ?thesis using p v bw scen regs by (simp add: st)
qed

theorem jform_jump_witness:
  "initialized in_handler \<and> \<not> halted in_handler \<and> miu in_handler = Some () \<and>
   miu_size (const_miu 0x11FFFFFE) () = None \<and> breakpointManager in_handler = None \<and>
   readU32 (const_miu 0x11FFFFFE) () (pc in_handler) = ((), Inr 0x11FFFFFE) \<and>
   drop_bit 27 (0x11FFFFFE :: u32) AND 0x1F = 0x02 \<and>
   pc in_handler = 0x9E000010 \<and> drop_bit 1 (0x11FFFFFE :: u32) AND 0xFFFFFF = 0xFFFFFF \<and>
   bit (0xFFFFFF :: u32) 23 \<and> 2 * (2 ^ 24 - uint (0xFFFFFF :: u32)) \<le> uint (pc in_handler) \<and>
   snd (step (const_miu 0x11FFFFFE) in_handler) = True \<and>
   pc (fst (step (const_miu 0x11FFFFFE) in_handler)) = 0x9E00000E \<and>
   pc (fst (step (const_miu 0x11FFFFFE) in_handler)) < pc in_handler \<and>
   r (fst (step (const_miu 0x11FFFFFE) in_handler)) 3 = 0 \<and>
   r (fst (step (const_miu 0x11FFFFFF) in_handler)) 3 = 0x9E000014"
proof -
  let ?p = "pc (fst (step (const_miu 0x11FFFFFE) in_handler))"
  let ?d = "drop_bit 1 (0x11FFFFFE :: u32) AND 0xFFFFFF"
  have hyps: "initialized in_handler \<and> \<not> halted in_handler \<and> miu in_handler = Some () \<and>
   miu_size (const_miu 0x11FFFFFE) () = None \<and> breakpointManager in_handler = None \<and>
   readU32 (const_miu 0x11FFFFFE) () (pc in_handler) = ((), Inr 0x11FFFFFE) \<and>
   drop_bit 27 (0x11FFFFFE :: u32) AND 0x1F = 0x02 \<and>
   pc in_handler = 0x9E000010 \<and> drop_bit 1 (0x11FFFFFE :: u32) AND 0xFFFFFF = 0xFFFFFF \<and>
   bit (0xFFFFFF :: u32) 23 \<and> 2 * (2 ^ 24 - uint (0xFFFFFF :: u32)) \<le> uint (pc in_handler)"
    by (simp add: in_handler_run in_handler_fields const_miu_fields)
  have h4: "case miu_size (const_miu w) () of None \<Rightarrow> True
      | Some sz \<Rightarrow> unat (pc in_handler) \<le> sz" for w
    by (simp add: const_miu_fields)
  have h5: "case breakpointManager in_handler of None \<Rightarrow> True
      | Some bm \<Rightarrow> \<not> snd (checkBreakpoint bm (pc in_handler))"
    by (simp add: in_handler_run)
  have h6: "readU32 (const_miu w) () (pc in_handler) = ((), Inr w)" for w
    by (simp add: const_miu_fields)
  have op1: "drop_bit 27 (0x11FFFFFE :: u32) AND 0x1F = 0x02" by simp
  have op2: "drop_bit 27 (0x11FFFFFF :: u32) AND 0x1F = 0x02" by simp
  note J = jform_jump [where s = in_handler and mi = "const_miu 0x11FFFFFE" and m = "()"
      and mm = "()" and insn = "0x11FFFFFE", OF in_handler_run(1-3) h4 h5 h6 op1]
  note K = jform_jump [where s = in_handler and mi = "const_miu 0x11FFFFFF" and m = "()"
      and mm = "()" and insn = "0x11FFFFFF", OF in_handler_run(1-3) h4 h5 h6 op2]
  have g1: "bit ?d 23 \<and> 2 * (2 ^ 24 - uint ?d) \<le> uint (pc in_handler)"
    by (simp add: in_handler_fields)
  have g2: "pc in_handler = 0x9E000010 \<and> ?d = 0xFFFFFF"
    by (simp add: in_handler_fields)
  have a: "snd (step (const_miu 0x11FFFFFE) in_handler) = True" using J by blast
  have b: "?p < pc in_handler" using J g1 by blast
  have c: "?p = 0x9E00000E" using J g2 by blast
  have "r (fst (step (const_miu 0x11FFFFFE) in_handler)) =
      (if (0x11FFFFFE :: u32) AND 1 \<noteq> 0 then (r in_handler)(3 := pc in_handler + 4)
       else r in_handler)"
    using J by blast
  then have e: "r (fst (step (const_miu 0x11FFFFFE) in_handler)) 3 = 0"
    by (simp add: in_handler_run)
  have "r (fst (step (const_miu 0x11FFFFFF) in_handler)) =
      (if (0x11FFFFFF :: u32) AND 1 \<noteq> 0 then (r in_handler)(3 := pc in_handler + 4)
       else r in_handler)"
    using K by blast
  then have f: "r (fst (step (const_miu 0x11FFFFFF) in_handler)) 3 = 0x9E000014"
    by (simp add: in_handler_fields)
  show ?thesis using hyps a b c e f by blast
qed

text \<open>
  The claim as stated (every displacement with bit 23 set gives a target below \<open>pc\<close>)
  fails where the subtraction wraps: at \<open>pc = 0\<close> the displacement \<open>0xFFFFFF\<close> leads
  to \<open>0xFFFFFFFE\<close>.
\<close>

theorem jform_backward_counterexample:
  "bit (drop_bit 1 (0x11FFFFFE :: u32) AND 0xFFFFFF) 23 \<and>
   pc booted = 0 \<and>
   snd (step (const_miu 0x11FFFFFE) booted) = True \<and>
   pc (fst (step (const_miu 0x11FFFFFE) booted)) = 0xFFFFFFFE \<and>
   \<not> pc (fst (step (const_miu 0x11FFFFFE) booted)) < pc booted"
proof -
  have st: "step (const_miu 0x11FFFFFE) booted =
      (booted\<lparr>fault_count := 0, miu := Some (),
         pc := 0 + push_bit 1 (signExtend (drop_bit 1 0x11FFFFFE AND 0xFFFFFF) 24),
         cycles := cycles booted + 1, instructions := instructions booted + 1\<rparr>, True)"
    using step_jform [where s = booted and mi = "const_miu 0x11FFFFFE" and m = "()"
        and mm = "()" and insn = "0x11FFFFFE"]
    by (simp add: booted_fields const_miu_fields)
  have "uint (0 + push_bit 1 (signExtend (drop_bit 1 0x11FFFFFE AND 0xFFFFFF) 24) :: u32) =
      uint (0xFFFFFFFE :: u32)"
    by (subst jform_target_value [where x = "drop_bit 1 0x11FFFFFE"]) simp_all
  then have "(0 + push_bit 1 (signExtend (drop_bit 1 0x11FFFFFE AND 0xFFFFFF) 24) :: u32) =
      0xFFFFFFFE"
    by (rule word_uint_eqI)
  then show ?thesis
    by (simp add: st booted_fields)
qed

section \<open>Register 0\<close>

text \<open>
  Claim C1 at two inputs. On the booted CPU (\<open>r0 = 0\<close>) \<open>setRegister(0, x)\<close> leaves
  \<open>r0\<close> at 0, but a step on the RIX-Form word \<open>0x18400080\<close> (opcode 3, \<open>rD = 1\<close>,
  \<open>rA = 0\<close>, offset 4) returns true and leaves \<open>getRegister(0) = 4\<close>: the
  post-increment stores the address into \<open>r[0]\<close>. A step on the compressed \<open>c.push\<close>
  word \<open>0x40005C00\<close> (stack register 0) returns true and leaves
  \<open>getRegister(0) = 0xFFFFFFFC\<close>.
\<close>

theorem rix_post_increment_writes_r0:
  "getRegister booted 0 = 0 \<and>
   getRegister (setRegister booted 0 0xDEADBEEF) 0 = 0 \<and>
   snd (step (const_miu 0x18400080) booted) = True \<and>
   getRegister (fst (step (const_miu 0x18400080) booted)) 0 = 4 \<and>
   snd (step (const_miu 0x40005C00) booted) = True \<and>
   getRegister (fst (step (const_miu 0x40005C00) booted)) 0 = 0xFFFFFFFC"
proof -
  have d1: "step_dispatch (const_miu 0x18400080) (booted\<lparr>fault_count := 0, miu := Some ()\<rparr>) 0x18400080 =
      (booted\<lparr>fault_count := 0, miu := Some (), r := (\<lambda>_. 0)(1 := 0x18400080, 0 := 4)\<rparr>, Inr 4)"
    by (simp add: step_dispatch_def execRixForm_def Let_def miu_read_def const_miu_fields
        signExtend_def setRegister_def booted_fields)
  have d2: "step_dispatch (const_miu 0x40005C00) (booted\<lparr>fault_count := 0, miu := Some ()\<rparr>) 0x40005C00 =
      (booted\<lparr>fault_count := 0, miu := Some (), r := (\<lambda>_. 0)(0 := - 4)\<rparr>, Inr 2)"
    by (simp add: step_dispatch_def exec16_def Let_def miu_write_def const_miu_fields
        booted_fields)
  have m4: "(- 4 :: u32) = 0xFFFFFFFC" by simp
  show ?thesis
    by (simp add: step_const_miu booted_fields d1 d2 getRegister_def setRegister_def m4)
qed

section \<open>Faults caught by \<open>step()\<close>\<close>

lemma throwing_miu_fields:
  "miu_size throwing_miu m = None" "readU32 throwing_miu m a = (m, Inl ''fault'')"
  by (simp_all add: throwing_miu_def)

lemma step_throwing:
  assumes "initialized s" "\<not> halted s" "miu s = Some ()" "breakpointManager s = None"
  shows "step throwing_miu s =
    (s\<lparr>fault_count := 1, miu := Some (), last_error := Some ''fault''\<rparr>, False)"
  by (rule step_fetch_throws) (simp_all add: assms throwing_miu_fields)

lemma steps_throwing:
  assumes "initialized s" "\<not> halted s" "miu s = Some ()" "breakpointManager s = None"
    "fault_count s \<le> 1"
  shows "initialized (steps throwing_miu n s) \<and> \<not> halted (steps throwing_miu n s) \<and>
    miu (steps throwing_miu n s) = Some () \<and> breakpointManager (steps throwing_miu n s) = None \<and>
    fault_count (steps throwing_miu n s) \<le> 1 \<and>
    (0 < n \<longrightarrow> fault_count (steps throwing_miu n s) = 1)"
  using assms
proof (induction n arbitrary: s)
  case 0
  then show ?case by simp
next
  case (Suc n)
  let ?s1 = "fst (step throwing_miu s)"
  have s1: "?s1 = s\<lparr>fault_count := 1, miu := Some (), last_error := Some ''fault''\<rparr>"
    using Suc.prems by (simp add: step_throwing)
  have "initialized ?s1" "\<not> halted ?s1" "miu ?s1 = Some ()" "breakpointManager ?s1 = None"
    "fault_count ?s1 \<le> 1" "fault_count ?s1 = 1"
    using Suc.prems by (simp_all add: s1)
  with Suc.IH [of ?s1] show ?case by (cases n) auto
qed

text \<open>
  Claim C2 at a concrete input. On the booted CPU with a memory interface whose fetch
  throws, every call of \<open>step()\<close> returns false, and after 101 such calls
  \<open>fault_count\<close> is 1 and \<open>halted\<close> is false: the counter is reset before the
  \<open>try\<close> block of every call, so caught faults never add up.
\<close>

theorem caught_faults_never_accumulate:
  "fault_count (steps throwing_miu 101 booted) = 1 \<and>
   \<not> halted (steps throwing_miu 101 booted) \<and>
   (\<forall>n. snd (step throwing_miu (steps throwing_miu n booted)) = False \<and>
        fault_count (steps throwing_miu n booted) \<le> 1 \<and>
        \<not> halted (steps throwing_miu n booted))"
proof -
  have inv: "initialized (steps throwing_miu n booted) \<and> \<not> halted (steps throwing_miu n booted) \<and>
    miu (steps throwing_miu n booted) = Some () \<and>
    breakpointManager (steps throwing_miu n booted) = None \<and>
    fault_count (steps throwing_miu n booted) \<le> 1 \<and>
    (0 < n \<longrightarrow> fault_count (steps throwing_miu n booted) = 1)" for n
    by (rule steps_throwing) (simp_all add: booted_fields)
  have a: "fault_count (steps throwing_miu 101 booted) = 1" using inv [of 101] by simp
  have b: "\<not> halted (steps throwing_miu n booted)" for n using inv [of n] by simp
  have c: "snd (step throwing_miu (steps throwing_miu n booted)) = False" for n
    using inv [of n] by (simp add: step_throwing)
  have d: "fault_count (steps throwing_miu n booted) \<le> 1" for n using inv [of n] by simp
  show ?thesis by (intro conjI allI a b c d)
qed

end
